theory Spec2Isabelle
  imports Main "HOL-Library.AList"
begin

section \<open>The RDS backend model of moto (moto/rds/models.py)\<close>

text \<open>
  The development embeds the in-memory RDS backend: tagging, ARNs, identifier
  validation, the instance and cluster lifecycles and the snapshot quota.
  Python objects become records, dictionaries become association lists in insertion
  order (the backend uses \<open>OrderedDict\<close>), every \<open>raise\<close> becomes a value of
  the type \<open>error\<close>, and every method of the backend returns its outcome together
  with the backend after the call, since a method may have mutated the backend before it
  raised.
\<close>

subsection \<open>Errors\<close>

datatype error =
    InvalidParameterValue
  | InvalidParameterCombination
  | InvalidDBInstanceIdentifier
  | InvalidDBInstanceStateError
  | InvalidDBClusterStateFaultError
  | InvalidDBClusterStateFault
  | InvalidDBInstanceEngine
  | DBInstanceAlreadyExists
  | DBInstanceNotFoundError
  | DBClusterNotFoundError
  | DBClusterToBeDeletedHasActiveMembers
  | DBSnapshotAlreadyExistsError
  | DBClusterSnapshotAlreadyExistsError
  | SnapshotQuotaExceededError
  | RDSClientError string
  | NotImplementedError
  | AttributeError
  | KeyError
  | IndexError
  | ValueError
  | TypeError
  | DBSubnetGroupNotFoundError
  | DBParameterGroupNotFoundError
  | OptionGroupNotFoundFaultError

subsection \<open>Tags (class TaggingMixin)\<close>

text \<open>
  A tag is the dictionary \<open>{"Key": k, "Value": v}\<close>, modelled as the pair \<open>(k, v)\<close>.
\<close>

type_synonym tag = "string \<times> string"

record TaggingMixin =
  tags :: "tag list"

text \<open>
  \<open>add_tags\<close>: \<open>new_keys\<close> are the keys of the argument, the old tags whose key is not
  among them are kept in order, the argument is appended, and the result is stored and
  returned.
\<close>

definition add_tags_list :: "tag list \<Rightarrow> tag list \<Rightarrow> tag list" where
  "add_tags_list old new =
     (let new_keys = map fst new;
          updated_tags = filter (\<lambda>tag_set. fst tag_set \<notin> set new_keys) old
      in updated_tags @ new)"

definition add_tags ::
  "'a TaggingMixin_scheme \<Rightarrow> tag list \<Rightarrow> tag list \<times> 'a TaggingMixin_scheme" where
  "add_tags self new =
     (let self' = self\<lparr>tags := add_tags_list (tags self) new\<rparr> in (tags self', self'))"


definition get_tags :: "'a TaggingMixin_scheme \<Rightarrow> tag list" where
  "get_tags self = tags self"

subsection \<open>Python strings and lists\<close>

text \<open>
  Strings are lists of characters. The identifiers, engine names and ARNs the backend
  handles are ASCII, and the character tests below are the ASCII ones.
\<close>

definition startswith :: "string \<Rightarrow> string \<Rightarrow> bool" where
  "startswith s p = (take (length p) s = p)"

definition endswith :: "string \<Rightarrow> string \<Rightarrow> bool" where
  "endswith s p = (length p \<le> length s \<and> drop (length s - length p) s = p)"

text \<open>
  \<open>s.replace(old, new)\<close>: every occurrence of \<open>old\<close>, found from the left without
  overlap, is replaced; an empty \<open>old\<close> matches before every character and at the end.
\<close>

function str_replace :: "string \<Rightarrow> string \<Rightarrow> string \<Rightarrow> string" where
  "str_replace old new [] = (if old = [] then new else [])"
| "str_replace old new (c # cs) =
     (if old = [] then new @ c # str_replace old new cs
      else if take (length old) (c # cs) = old
        then new @ str_replace old new (drop (length old) (c # cs))
      else c # str_replace old new cs)"
  by pat_completeness auto
termination
  by (relation "measure (\<lambda>(old, new, s). length s)") auto

text \<open>\<open>s.split(sep)\<close> for a separator of one character: never an empty list.\<close>

fun split :: "char \<Rightarrow> string \<Rightarrow> string list" where
  "split sep [] = [[]]"
| "split sep (c # cs) =
     (if c = sep then [] # split sep cs
      else (case split sep cs of [] \<Rightarrow> [[c]] | w # ws \<Rightarrow> (c # w) # ws))"

text \<open>\<open>xs[i]\<close>: a negative index counts from the end, an index out of range raises.\<close>

definition py_index :: "'a list \<Rightarrow> int \<Rightarrow> error + 'a" where
  "py_index xs i =
     (if 0 \<le> i \<and> i < int (length xs) then Inr (xs ! nat i)
      else if i < 0 \<and> - int (length xs) \<le> i then Inr (xs ! nat (int (length xs) + i))
      else Inl IndexError)"

definition is_upper :: "char \<Rightarrow> bool" where
  "is_upper c = (65 \<le> (of_char c :: nat) \<and> (of_char c :: nat) \<le> 90)"

definition is_lower :: "char \<Rightarrow> bool" where
  "is_lower c = (97 \<le> (of_char c :: nat) \<and> (of_char c :: nat) \<le> 122)"

definition is_digit :: "char \<Rightarrow> bool" where
  "is_digit c = (48 \<le> (of_char c :: nat) \<and> (of_char c :: nat) \<le> 57)"

definition isalpha :: "char \<Rightarrow> bool" where
  "isalpha c = (is_upper c \<or> is_lower c)"

definition lower_char :: "char \<Rightarrow> char" where
  "lower_char c = (if is_upper c then char_of (of_char c + (32::nat)) else c)"

definition lower :: "string \<Rightarrow> string" where
  "lower s = map lower_char s"

subsection \<open>Resources (class RDSBaseModel and its subclasses)\<close>

datatype rds_class =
    DBProxyTarget_class
  | DBProxyTargetGroup_class
  | GlobalCluster_class
  | DBCluster_class
  | DBClusterSnapshot_class
  | DBInstance_class
  | DBSnapshot_class
  | ExportTask_class
  | EventSubscription_class
  | DBSecurityGroup_class
  | DBSubnetGroup_class
  | DBProxy_class
  | OptionGroup_class
  | DBParameterGroup_class
  | DBClusterParameterGroup_class

text \<open>
  The class attribute \<open>resource_type\<close>. \<open>ExportTask\<close> declares none, so reading it
  raises \<open>AttributeError\<close>.
\<close>

fun resource_type :: "rds_class \<Rightarrow> string option" where
  "resource_type DBProxyTarget_class = Some ''proxy-target''"
| "resource_type DBProxyTargetGroup_class = Some ''target-group''"
| "resource_type GlobalCluster_class = Some ''global-cluster''"
| "resource_type DBCluster_class = Some ''cluster''"
| "resource_type DBClusterSnapshot_class = Some ''cluster-snapshot''"
| "resource_type DBInstance_class = Some ''db''"
| "resource_type DBSnapshot_class = Some ''snapshot''"
| "resource_type ExportTask_class = None"
| "resource_type EventSubscription_class = Some ''es''"
| "resource_type DBSecurityGroup_class = Some ''secgrp''"
| "resource_type DBSubnetGroup_class = Some ''subgrp''"
| "resource_type DBProxy_class = Some ''db-proxy''"
| "resource_type OptionGroup_class = Some ''og''"
| "resource_type DBParameterGroup_class = Some ''pg''"
| "resource_type DBClusterParameterGroup_class = Some ''cluster-pg''"

text \<open>
  Every resource carries the attribute its \<open>name\<close> property returns
  (\<open>db_instance_identifier\<close>, \<open>db_cluster_identifier\<close>, \<open>snapshot_id\<close>,
  \<open>global_cluster_identifier\<close>, \<open>subscription_name\<close>, \<open>group_name\<close>,
  \<open>subnet_name\<close>, \<open>unique_id\<close> or \<open>_name\<close>). The class of an object and its
  attribute \<open>backend\<close>, the backend that holds it, are arguments of the functions
  below.
\<close>

record RDSBaseModel = TaggingMixin +
  name_attr :: string

text \<open>
  \<open>name\<close>: \<open>RDSBaseModel.name\<close> raises \<open>NotImplementedError\<close>; \<open>DBProxyTarget\<close> and
  \<open>ExportTask\<close> do not override it.
\<close>

definition name :: "rds_class \<Rightarrow> 'a RDSBaseModel_scheme \<Rightarrow> error + string" where
  "name cls self =
     (if cls \<in> {DBProxyTarget_class, ExportTask_class}
      then Inl NotImplementedError else Inr (name_attr self))"

text \<open>The identity of a backend: \<open>region_name\<close>, \<open>account_id\<close> and \<open>partition\<close>.\<close>

record BaseBackend =
  region_name :: string
  account_id :: string
  partition :: string

text \<open>
  \<open>RDSBaseModel.arn\<close>: the f-string reads \<open>partition\<close>, \<open>region\<close>, \<open>account_id\<close>,
  \<open>resource_type\<close> and \<open>name\<close> in this order.
\<close>

definition RDSBaseModel_arn ::
  "'b BaseBackend_scheme \<Rightarrow> rds_class \<Rightarrow> 'a RDSBaseModel_scheme \<Rightarrow> error + string" where
  "RDSBaseModel_arn backend cls self =
     (case resource_type cls of
        None \<Rightarrow> Inl AttributeError
      | Some rt \<Rightarrow>
          (case name cls self of
             Inl e \<Rightarrow> Inl e
           | Inr n \<Rightarrow>
               Inr (''arn:'' @ partition backend @ '':rds:'' @ region_name backend @ '':'' @
                    account_id backend @ '':'' @ rt @ '':'' @ n)))"

text \<open>
  \<open>arn\<close>: \<open>GlobalCluster\<close> overrides the property and removes the region from the
  string of its superclass.
\<close>

definition arn ::
  "'b BaseBackend_scheme \<Rightarrow> rds_class \<Rightarrow> 'a RDSBaseModel_scheme \<Rightarrow> error + string" where
  "arn backend cls self =
     (if cls = GlobalCluster_class
      then (case RDSBaseModel_arn backend cls self of
              Inl e \<Rightarrow> Inl e
            | Inr a \<Rightarrow> Inr (str_replace (region_name backend) [] a))
      else RDSBaseModel_arn backend cls self)"

subsection \<open>Regular expressions\<close>

text \<open>
  The two patterns of the backend use literals, character classes, bounded and
  unbounded repetition of a class, an optional item, an alternation of literals and
  concatenation. \<open>fullmatch r s\<close> holds when \<open>r\<close> matches the whole of \<open>s\<close>; a
  backtracking matcher finds a match exactly when one exists.
\<close>

datatype regex =
    Lit string
  | Chr "char \<Rightarrow> bool"
  | Rep "char \<Rightarrow> bool" nat "nat option"
  | Opt regex
  | OneOf "string list"
  | Seq regex regex

fun fullmatch :: "regex \<Rightarrow> string \<Rightarrow> bool" where
  "fullmatch (Lit w) s = (s = w)"
| "fullmatch (Chr p) s = (case s of [c] \<Rightarrow> p c | _ \<Rightarrow> False)"
| "fullmatch (Rep p m n) s =
     (m \<le> length s \<and> (case n of None \<Rightarrow> True | Some k \<Rightarrow> length s \<le> k) \<and> list_all p s)"
| "fullmatch (Opt r) s = (s = [] \<or> fullmatch r s)"
| "fullmatch (OneOf ws) s = (s \<in> set ws)"
| "fullmatch (Seq r1 r2) s =
     list_ex (\<lambda>i. fullmatch r1 (take i s) \<and> fullmatch r2 (drop i s)) [0..<Suc (length s)]"

text \<open>The dot matches every character but the newline.\<close>

definition dot :: "char \<Rightarrow> bool" where
  "dot c = (c \<noteq> CHR 0x0A)"

text \<open>
  \<open>r$\<close> from the start of \<open>s\<close>: the dollar matches at the end of the string and also
  just before a newline that ends the string.
\<close>

definition match_dollar :: "regex \<Rightarrow> string \<Rightarrow> bool" where
  "match_dollar r s =
     (fullmatch r s \<or> (s \<noteq> [] \<and> last s = CHR 0x0A \<and> fullmatch r (butlast s)))"

text \<open>\<open>(?!r)\<close> at the start of \<open>s\<close>: no prefix of \<open>s\<close> matches \<open>r\<close>.\<close>

definition not_ahead :: "regex \<Rightarrow> string \<Rightarrow> bool" where
  "not_ahead r s = (\<not> list_ex (\<lambda>i. fullmatch r (take i s)) [0..<Suc (length s)])"

definition alnum :: "char \<Rightarrow> bool" where
  "alnum c = (is_lower c \<or> is_upper c \<or> is_digit c)"

definition alnum_hyphen :: "char \<Rightarrow> bool" where
  "alnum_hyphen c = (is_lower c \<or> is_upper c \<or> is_digit c \<or> c = CHR ''-'')"

text \<open>
  \<open>_validate_db_identifier\<close>: the pattern is
  \<^verbatim>\<open>^(?!.*--)([a-zA-Z]?[a-zA-Z0-9-]{0,61}[a-zA-Z0-9])$\<close>, and the first
  character, read only when the pattern matched, must be a letter.
\<close>

definition db_identifier_pattern :: regex where
  "db_identifier_pattern = Seq (Opt (Chr isalpha)) (Seq (Rep alnum_hyphen 0 (Some 61)) (Chr alnum))"

definition validate_db_identifier :: "string \<Rightarrow> error + unit" where
  "validate_db_identifier db_identifier =
     (if (not_ahead (Seq (Rep dot 0 None) (Lit ''--'')) db_identifier \<and>
          match_dollar db_identifier_pattern db_identifier) \<and>
         (case db_identifier of [] \<Rightarrow> False | c # _ \<Rightarrow> isalpha c)
      then Inr () else Inl InvalidDBInstanceIdentifier)"

text \<open>
  The constraints as the specification words them: 1 to 63 letters, digits or hyphens,
  the first a letter, the last not a hyphen, no two hyphens in a row.
\<close>

definition identifier_constraints :: "string \<Rightarrow> bool" where
  "identifier_constraints s =
     (1 \<le> length s \<and> length s \<le> 63 \<and> list_all alnum_hyphen s \<and> isalpha (hd s) \<and>
      last s \<noteq> CHR ''-'' \<and>
      \<not> list_ex (\<lambda>i. s ! i = CHR ''-'' \<and> s ! Suc i = CHR ''-'') [0..<length s - 1])"

subsection \<open>What the backend takes from outside\<close>

text \<open>
  The constants and helpers of \<open>moto.utilities.utils\<close> and \<open>moto.rds.utils\<close> and
  the process environment are parameters of the model:
  \<^item> \<open>ARN_PARTITION_REGEX\<close>, as the set of strings that pattern matches;
  \<^item> \<open>ClusterEngine.list_cluster_engines()\<close>, \<open>ClusterEngine.serverless_engines()\<close>
    and \<open>DbInstanceEngine.valid_db_instance_engine()\<close>;
  \<^item> \<open>valid_preferred_maintenance_window\<close>, which returns a message or \<open>None\<close>;
  \<^item> the environment variable \<open>MOTO_RDS_SNAPSHOT_LIMIT\<close>.
\<close>

record env =
  ARN_PARTITION_REGEX :: "string \<Rightarrow> bool"
  list_cluster_engines :: "string list"
  serverless_engines :: "string list"
  valid_db_instance_engine :: "string list"
  valid_preferred_maintenance_window :: "string option \<Rightarrow> string option \<Rightarrow> string option"
  MOTO_RDS_SNAPSHOT_LIMIT :: "string option"

text \<open>
  \<open>arn_regex\<close> is \<open>ARN_PARTITION_REGEX\<close> followed by
  \<^verbatim>\<open>:rds:.*:[0-9]*:(db|cluster|es|og|pg|ri|secgrp|snapshot|cluster-snapshot|subgrp|db-proxy):.*$\<close>;
  \<open>arn_regex.match\<close> succeeds when some prefix matches the first part and the rest
  matches the second.
\<close>

definition arn_regex_tail :: regex where
  "arn_regex_tail =
     Seq (Lit '':rds:'') (Seq (Rep dot 0 None) (Seq (Lit '':'') (Seq (Rep is_digit 0 None)
       (Seq (Lit '':'')
         (Seq (OneOf [''db'', ''cluster'', ''es'', ''og'', ''pg'', ''ri'', ''secgrp'', ''snapshot'',
                      ''cluster-snapshot'', ''subgrp'', ''db-proxy''])
           (Seq (Lit '':'') (Rep dot 0 None)))))))"

definition arn_regex_match :: "env \<Rightarrow> string \<Rightarrow> bool" where
  "arn_regex_match e s =
     list_ex (\<lambda>i. ARN_PARTITION_REGEX e (take i s) \<and> match_dollar arn_regex_tail (drop i s))
       [0..<Suc (length s)]"

text \<open>
  \<open>int(s)\<close> on a string: surrounding white space is dropped, a sign may lead, and
  single underscores may separate digits.
\<close>

definition digit_value :: "char \<Rightarrow> int" where
  "digit_value c = int (of_char c) - 48"

fun parse_digits :: "int \<Rightarrow> string \<Rightarrow> int option" where
  "parse_digits acc [] = Some acc"
| "parse_digits acc [c] = (if is_digit c then Some (10 * acc + digit_value c) else None)"
| "parse_digits acc (c # d # ds) =
     (if is_digit c then parse_digits (10 * acc + digit_value c) (d # ds)
      else if c = CHR ''_'' \<and> is_digit d then parse_digits (10 * acc + digit_value d) ds
      else None)"

definition parse_nat :: "string \<Rightarrow> int option" where
  "parse_nat s = (case s of [] \<Rightarrow> None
     | c # cs \<Rightarrow> if is_digit c then parse_digits (digit_value c) cs else None)"

definition is_space :: "char \<Rightarrow> bool" where
  "is_space c = ((of_char c :: nat) \<in> {9, 10, 11, 12, 13, 28, 29, 30, 31, 32})"

definition strip :: "string \<Rightarrow> string" where
  "strip s = rev (dropWhile is_space (rev (dropWhile is_space s)))"

definition py_int :: "string \<Rightarrow> error + int" where
  "py_int s =
     (case (case strip s of
              [] \<Rightarrow> None
            | c # cs \<Rightarrow>
                if c = CHR ''-'' then map_option uminus (parse_nat cs)
                else if c = CHR ''+'' then parse_nat cs
                else parse_nat (c # cs)) of
        None \<Rightarrow> Inl ValueError
      | Some n \<Rightarrow> Inr n)"

text \<open>\<open>int(os.environ.get("MOTO_RDS_SNAPSHOT_LIMIT", "100"))\<close>\<close>

definition snapshot_limit :: "env \<Rightarrow> error + int" where
  "snapshot_limit e =
     py_int (case MOTO_RDS_SNAPSHOT_LIMIT e of None \<Rightarrow> ''100'' | Some v \<Rightarrow> v)"

subsection \<open>Dictionaries\<close>

text \<open>
  A dictionary is an association list in insertion order with distinct keys:
  \<open>d[k] = v\<close> is \<open>AList.update k v d\<close> (in place for a key of \<open>d\<close>, at the end
  otherwise), \<open>d.pop(k)\<close> and \<open>del d[k]\<close> are \<open>AList.delete k d\<close>, \<open>d.get(k)\<close> is
  \<open>map_of d k\<close> and \<open>len(d)\<close> is \<open>length d\<close>. An assignment to an attribute of
  the object stored under \<open>k\<close> is \<open>AList.map_entry k f d\<close>, where \<open>f\<close> is the
  assignment.
\<close>

type_synonym ('k, 'v) dict = "('k \<times> 'v) list"

definition has_key :: "('k, 'v) dict \<Rightarrow> 'k \<Rightarrow> bool" where
  "has_key d k = (k \<in> set (map fst d))"

text \<open>Truth value of an optional string: \<open>None\<close> and the empty string are false.\<close>

definition truthy :: "string option \<Rightarrow> bool" where
  "truthy v = (case v of None \<Rightarrow> False | Some s \<Rightarrow> s \<noteq> [])"

text \<open>A dictionary literal read at a key: \<open>KeyError\<close> for a key it does not have.\<close>

definition lookup :: "('k, 'v) dict \<Rightarrow> 'k \<Rightarrow> error + 'v" where
  "lookup d k = (case map_of d k of None \<Rightarrow> Inl KeyError | Some v \<Rightarrow> Inr v)"

subsection \<open>DB instances (class DBInstance)\<close>

text \<open>
  The record keeps the attributes that the methods below read or that decide whether
  the constructor raises. Time stamps, random identifiers, endpoints, security groups
  and the storage and secret settings that no method below reads are left out.
\<close>

record DBInstance = RDSBaseModel +
  status :: string
  is_replica :: bool
  replicas :: "string list"
  engine :: string
  db_instance_class :: string
  port :: int
  iops :: "string option"
  storage_type :: string
  allocated_storage :: int
  db_cluster_identifier :: "string option"
  source_db_identifier :: "string option"
  source_db_instance_identifier :: "string option"
  db_subnet_group_name :: "string option"
  db_parameter_group_name :: "string option"
  option_group_name :: "string option"
  copy_tags_to_snapshot :: bool
  multi_az :: bool
  preferred_backup_window :: string
  preferred_maintenance_window :: string
  deletion_protection :: bool
  master_user_secret_status :: string

text \<open>
  The dictionary \<open>db_kwargs\<close> of \<open>create_db_instance\<close> and \<open>modify_db_instance\<close>: a key
  that is absent is \<open>None\<close>. The model covers the calls whose dictionary has the keys
  below and no others, each with a value of the annotated type.
\<close>

record db_kwargs =
  kw_db_instance_identifier :: "string option"
  kw_new_db_instance_identifier :: "string option"
  kw_db_instance_class :: "string option"
  kw_engine :: "string option"
  kw_port :: "int option"
  kw_iops :: "string option"
  kw_storage_type :: "string option"
  kw_allocated_storage :: "int option"
  kw_db_cluster_identifier :: "string option"
  kw_source_db_instance_identifier :: "string option"
  kw_db_subnet_group_name :: "string option"
  kw_db_parameter_group_name :: "string option"
  kw_option_group_name :: "string option"
  kw_copy_tags_to_snapshot :: "bool option"
  kw_multi_az :: "bool option"
  kw_preferred_backup_window :: "string option"
  kw_preferred_maintenance_window :: "string option"
  kw_deletion_protection :: "bool option"
  kw_tags :: "tag list option"
  kw_rotate_master_user_password :: "bool option"
  kw_apply_immediately :: "bool option"

subsection \<open>DB clusters (class DBCluster)\<close>

text \<open>\<open>private_status\<close> is the attribute \<open>_status\<close> behind the property \<open>status\<close>.\<close>

record DBCluster = RDSBaseModel +
  private_status :: string
  engine :: string
  engine_version :: string
  engine_mode :: string
  port :: int
  storage_type :: string
  allocated_storage :: int
  deletion_protection :: bool
  copy_tags_to_snapshot :: bool
  master_username :: "string option"
  master_user_password :: "string option"
  global_cluster_identifier :: "string option"
  replication_source_identifier :: "string option"
  read_replica_identifiers :: "string list"
  cluster_members :: "string list"
  is_writer :: bool
  backtrack_window :: int
  iam_auth :: bool

text \<open>The dictionary \<open>kwargs\<close> of \<open>create_db_cluster\<close>, read like \<open>db_kwargs\<close>.\<close>

record kwargs =
  ckw_db_cluster_identifier :: "string option"
  ckw_engine :: "string option"
  ckw_engine_version :: "string option"
  ckw_engine_mode :: "string option"
  ckw_port :: "int option"
  ckw_iops :: "string option"
  ckw_storage_type :: "string option"
  ckw_allocated_storage :: "int option"
  ckw_deletion_protection :: "bool option"
  ckw_copy_tags_to_snapshot :: "bool option"
  ckw_master_username :: "string option"
  ckw_master_user_password :: "string option"
  ckw_global_cluster_identifier :: "string option"
  ckw_replication_source_identifier :: "string option"
  ckw_backtrack_window :: "int option"
  ckw_enable_iam_database_authentication :: "bool option"
  ckw_tags :: "tag list option"

subsection \<open>Snapshots and global clusters\<close>

text \<open>
  A snapshot refers to the instance or cluster it was taken of; the record keeps the
  value that object had when the snapshot was made. A global cluster lists its member
  clusters, each named by its key in \<open>clusters\<close>.
\<close>

record DBSnapshot = RDSBaseModel +
  database :: DBInstance
  snapshot_type :: string
  status :: string

record DBClusterSnapshot = RDSBaseModel +
  cluster :: DBCluster
  snapshot_type :: string
  status :: string

record GlobalCluster = RDSBaseModel +
  members :: "string list"

subsection \<open>The backend (class RDSBackend)\<close>

text \<open>
  One dictionary per resource class, as in \<open>__init__\<close>. The registry
  \<open>rds_backends\<close> is outside the model: the backends of the other regions and accounts
  are taken to be empty.
\<close>

record RDSBackend = BaseBackend +
  clusters :: "(string, DBCluster) dict"
  global_clusters :: "(string, GlobalCluster) dict"
  databases :: "(string, DBInstance) dict"
  database_snapshots :: "(string, DBSnapshot) dict"
  cluster_snapshots :: "(string, DBClusterSnapshot) dict"
  export_tasks :: "(string, RDSBaseModel) dict"
  event_subscriptions :: "(string, RDSBaseModel) dict"
  db_parameter_groups :: "(string, RDSBaseModel) dict"
  db_cluster_parameter_groups :: "(string, RDSBaseModel) dict"
  option_groups :: "(string, RDSBaseModel) dict"
  security_groups :: "(string, RDSBaseModel) dict"
  subnet_groups :: "(string, RDSBaseModel) dict"
  db_proxies :: "(string, RDSBaseModel) dict"

text \<open>The result of a method: what it returns or raises, and the backend afterwards.\<close>

type_synonym 'a result = "(error + 'a) \<times> RDSBackend"

text \<open>A call made as a statement: its value is dropped, its error and effect are kept.\<close>

definition statement :: "'a result \<Rightarrow> error option \<times> RDSBackend" where
  "statement r = (case r of (Inl err, s) \<Rightarrow> (Some err, s) | (Inr _, s) \<Rightarrow> (None, s))"

subsection \<open>The constructor of DBInstance\<close>

definition DBInstance_default_port :: "string \<Rightarrow> error + int" where
  "DBInstance_default_port e =
     lookup [(''aurora'', 3306), (''aurora-mysql'', 3306), (''aurora-postgresql'', 5432),
             (''mysql'', 3306), (''mariadb'', 3306), (''postgres'', 5432),
             (''oracle-ee'', 1521), (''oracle-se2'', 1521), (''oracle-se1'', 1521),
             (''oracle-se'', 1521), (''sqlserver-ee'', 1433), (''sqlserver-ex'', 1433),
             (''sqlserver-se'', 1433), (''sqlserver-web'', 1433)] e"

definition default_storage_type :: "string option \<Rightarrow> string" where
  "default_storage_type i = (case i of None \<Rightarrow> ''gp2'' | Some _ \<Rightarrow> ''io1'')"

definition storage_table :: "int \<Rightarrow> int \<Rightarrow> int \<Rightarrow> (string, int) dict" where
  "storage_table g i s = [(''gp2'', g), (''io1'', i), (''standard'', s)]"

definition DBInstance_default_allocated_storage :: "string \<Rightarrow> string \<Rightarrow> error + int" where
  "DBInstance_default_allocated_storage e st =
     (case lookup
        [(''aurora'', storage_table 0 0 0), (''aurora-mysql'', storage_table 20 100 10),
         (''aurora-postgresql'', storage_table 20 100 10), (''mysql'', storage_table 20 100 5),
         (''mariadb'', storage_table 20 100 5), (''postgres'', storage_table 20 100 5),
         (''oracle-ee'', storage_table 20 100 10), (''oracle-se2'', storage_table 20 100 10),
         (''oracle-se1'', storage_table 20 100 10), (''oracle-se'', storage_table 20 100 10),
         (''sqlserver-ee'', storage_table 200 200 200), (''sqlserver-ex'', storage_table 20 100 20),
         (''sqlserver-se'', storage_table 200 200 200),
         (''sqlserver-web'', storage_table 20 100 20)] e of
        Inl err \<Rightarrow> Inl err
      | Inr t \<Rightarrow> lookup t st)"

definition is_default_parameter_group :: "string \<Rightarrow> string \<Rightarrow> bool" where
  "is_default_parameter_group e param_group_name =
     startswith param_group_name (''default.'' @ lower e)"

definition default_option_groups :: "(string, string) dict" where
  "default_option_groups =
     [(''MySQL'', ''default.mysql5.6''), (''mysql'', ''default.mysql5.6''),
      (''postgres'', ''default.postgres9.3'')]"

text \<open>
  \<open>DBInstance.__init__\<close>, in the order of its statements: the engine check, the
  default storage, the default port, the subnet group, the maintenance window, the
  parameter group and the option group. \<open>db_instance_identifier\<close>,
  \<open>db_instance_class\<close> and \<open>engine\<close> are required arguments. The default security
  group comes from the EC2 backend, which is taken to answer.
\<close>

definition DBInstance_init :: "env \<Rightarrow> RDSBackend \<Rightarrow> db_kwargs \<Rightarrow> error + DBInstance" where
  "DBInstance_init e backend kw =
     (case (kw_db_instance_identifier kw, kw_db_instance_class kw, kw_engine kw) of
        (Some ident, Some cls, Some eng) \<Rightarrow>
          if eng \<notin> set (valid_db_instance_engine e) then Inl InvalidParameterValue
          else
            let st = (case kw_storage_type kw of
                        None \<Rightarrow> default_storage_type (kw_iops kw) | Some t \<Rightarrow> t) in
            (case (case kw_allocated_storage kw of
                     Some a \<Rightarrow> if a \<noteq> 0 then Inr a
                               else DBInstance_default_allocated_storage eng st
                   | None \<Rightarrow> DBInstance_default_allocated_storage eng st) of
               Inl err \<Rightarrow> Inl err
             | Inr alloc \<Rightarrow>
            (case (case kw_port kw of
                     None \<Rightarrow> DBInstance_default_port eng | Some p \<Rightarrow> Inr p) of
               Inl err \<Rightarrow> Inl err
             | Inr prt \<Rightarrow>
            if truthy (kw_db_subnet_group_name kw) \<and>
               \<not> has_key (subnet_groups backend) (the (kw_db_subnet_group_name kw))
            then Inl DBSubnetGroupNotFoundError
            else
              let pmw = lower (case kw_preferred_maintenance_window kw of
                                 None \<Rightarrow> ''wed:06:38-wed:07:08'' | Some w \<Rightarrow> w);
                  pbw = (case kw_preferred_backup_window kw of
                           None \<Rightarrow> ''13:14-13:44'' | Some w \<Rightarrow> w) in
              if truthy (valid_preferred_maintenance_window e (Some pmw) (Some pbw))
              then Inl (RDSClientError ''InvalidParameterValue'')
              else if truthy (kw_db_parameter_group_name kw) \<and>
                      \<not> is_default_parameter_group eng (the (kw_db_parameter_group_name kw)) \<and>
                      \<not> has_key (db_parameter_groups backend) (the (kw_db_parameter_group_name kw))
              then Inl DBParameterGroupNotFoundError
              else if truthy (kw_option_group_name kw) \<and>
                      \<not> has_key (option_groups backend) (the (kw_option_group_name kw))
              then Inl OptionGroupNotFoundFaultError
              else Inr
                \<lparr>tags = (case kw_tags kw of None \<Rightarrow> [] | Some ts \<Rightarrow> ts),
                 name_attr = ident,
                 DBInstance.status = ''available'',
                 is_replica = False,
                 replicas = [],
                 DBInstance.engine = eng,
                 db_instance_class = cls,
                 DBInstance.port = prt,
                 iops = kw_iops kw,
                 DBInstance.storage_type = st,
                 DBInstance.allocated_storage = alloc,
                 db_cluster_identifier = kw_db_cluster_identifier kw,
                 source_db_identifier = kw_source_db_instance_identifier kw,
                 source_db_instance_identifier = None,
                 db_subnet_group_name = kw_db_subnet_group_name kw,
                 db_parameter_group_name = kw_db_parameter_group_name kw,
                 option_group_name =
                   (if \<not> truthy (kw_option_group_name kw) \<and> has_key default_option_groups eng
                    then map_of default_option_groups eng else kw_option_group_name kw),
                 DBInstance.copy_tags_to_snapshot =
                   (case kw_copy_tags_to_snapshot kw of None \<Rightarrow> False | Some v \<Rightarrow> v),
                 multi_az = (case kw_multi_az kw of None \<Rightarrow> False | Some v \<Rightarrow> v),
                 preferred_backup_window = pbw,
                 preferred_maintenance_window = pmw,
                 DBInstance.deletion_protection =
                   (case kw_deletion_protection kw of None \<Rightarrow> False | Some v \<Rightarrow> v),
                 master_user_secret_status = ''active''\<rparr>))
      | _ \<Rightarrow> Inl TypeError)"

text \<open>
  \<open>DBInstance.update\<close>: every key of \<open>db_kwargs\<close> whose value is not \<open>None\<close> is set
  as the attribute of that name; the key \<open>db_instance_identifier\<close> sets the attribute
  behind \<open>name\<close>.
\<close>

definition set_opt :: "'a option \<Rightarrow> 'a \<Rightarrow> 'a" where
  "set_opt v old = (case v of None \<Rightarrow> old | Some x \<Rightarrow> x)"

definition update :: "DBInstance \<Rightarrow> db_kwargs \<Rightarrow> string option \<Rightarrow> DBInstance" where
  "update self kw secret_status =
     self\<lparr>tags := set_opt (kw_tags kw) (tags self),
          name_attr := set_opt (kw_db_instance_identifier kw) (name_attr self),
          DBInstance.engine := set_opt (kw_engine kw) (DBInstance.engine self),
          db_instance_class := set_opt (kw_db_instance_class kw) (db_instance_class self),
          DBInstance.port := set_opt (kw_port kw) (DBInstance.port self),
          iops := (case kw_iops kw of None \<Rightarrow> iops self | Some v \<Rightarrow> Some v),
          DBInstance.storage_type :=
            set_opt (kw_storage_type kw) (DBInstance.storage_type self),
          DBInstance.allocated_storage :=
            set_opt (kw_allocated_storage kw) (DBInstance.allocated_storage self),
          db_cluster_identifier :=
            (case kw_db_cluster_identifier kw of
               None \<Rightarrow> db_cluster_identifier self | Some v \<Rightarrow> Some v),
          source_db_instance_identifier :=
            (case kw_source_db_instance_identifier kw of
               None \<Rightarrow> source_db_instance_identifier self | Some v \<Rightarrow> Some v),
          db_subnet_group_name :=
            (case kw_db_subnet_group_name kw of
               None \<Rightarrow> db_subnet_group_name self | Some v \<Rightarrow> Some v),
          db_parameter_group_name :=
            (case kw_db_parameter_group_name kw of
               None \<Rightarrow> db_parameter_group_name self | Some v \<Rightarrow> Some v),
          option_group_name :=
            (case kw_option_group_name kw of
               None \<Rightarrow> option_group_name self | Some v \<Rightarrow> Some v),
          DBInstance.copy_tags_to_snapshot :=
            set_opt (kw_copy_tags_to_snapshot kw) (DBInstance.copy_tags_to_snapshot self),
          multi_az := set_opt (kw_multi_az kw) (multi_az self),
          preferred_backup_window :=
            set_opt (kw_preferred_backup_window kw) (preferred_backup_window self),
          preferred_maintenance_window :=
            set_opt (kw_preferred_maintenance_window kw) (preferred_maintenance_window self),
          DBInstance.deletion_protection :=
            set_opt (kw_deletion_protection kw) (DBInstance.deletion_protection self),
          master_user_secret_status := set_opt secret_status (master_user_secret_status self)\<rparr>"

subsection \<open>Methods on DB instances\<close>

text \<open>
  \<open>describe_db_instances\<close> with an identifier filters the instances on
  \<open>db-instance-id\<close>. The helpers \<open>merge_filters\<close>, \<open>validate_filters\<close> and
  \<open>apply_filter\<close> of \<open>moto.rds.utils\<close> are not among the sources; by the entry
  \<open>db-instance-id\<close> of \<open>DBInstance.SUPPORTED_FILTERS\<close> the filter keeps, in order,
  the instances whose \<open>db_instance_arn\<close> or \<open>db_instance_identifier\<close> is the
  identifier asked for. The result lists the instances with their keys.
\<close>

definition describe_db_instances ::
  "RDSBackend \<Rightarrow> string option \<Rightarrow> error + (string, DBInstance) dict" where
  "describe_db_instances self db_instance_identifier =
     (if truthy db_instance_identifier then
        let found = filter (\<lambda>(k, d). arn self DBInstance_class d = Inr (the db_instance_identifier)
                                   \<or> name_attr d = the db_instance_identifier) (databases self)
        in if found = [] then Inl DBInstanceNotFoundError else Inr found
      else Inr (databases self))"

text \<open>The first argument of \<open>create_db_snapshot\<close> is an identifier or an instance.\<close>

datatype db_instance_arg = ById string | ByObject DBInstance

definition create_db_snapshot ::
  "env \<Rightarrow> RDSBackend \<Rightarrow> db_instance_arg \<Rightarrow> string \<Rightarrow> string \<Rightarrow> tag list option
     \<Rightarrow> DBSnapshot result" where
  "create_db_snapshot e self db_instance db_snapshot_identifier snapshot_type' tags' =
     (case (case db_instance of
              ById s \<Rightarrow> (case map_of (databases self) s of
                           None \<Rightarrow> Inl DBInstanceNotFoundError | Some d \<Rightarrow> Inr d)
            | ByObject d \<Rightarrow> Inr d) of
        Inl err \<Rightarrow> (Inl err, self)
      | Inr database' \<Rightarrow>
          if has_key (database_snapshots self) db_snapshot_identifier
          then (Inl DBSnapshotAlreadyExistsError, self)
          else (case snapshot_limit e of
                  Inl err \<Rightarrow> (Inl err, self)
                | Inr limit \<Rightarrow>
                    if int (length (database_snapshots self)) \<ge> limit
                    then (Inl SnapshotQuotaExceededError, self)
                    else
                      let tags0 = (case tags' of None \<Rightarrow> [] | Some ts \<Rightarrow> ts);
                          tags1 = (if DBInstance.copy_tags_to_snapshot database' \<and> tags0 = []
                                   then get_tags database' else tags0);
                          snapshot = \<lparr>tags = tags1, name_attr = db_snapshot_identifier,
                                      database = database',
                                      DBSnapshot.snapshot_type = snapshot_type',
                                      DBSnapshot.status = ''available''\<rparr>
                      in (Inr snapshot,
                          self\<lparr>database_snapshots :=
                            AList.update db_snapshot_identifier snapshot (database_snapshots self)\<rparr>)))"

definition create_auto_snapshot ::
  "env \<Rightarrow> RDSBackend \<Rightarrow> string \<Rightarrow> string \<Rightarrow> DBSnapshot result" where
  "create_auto_snapshot e self db_instance_identifier db_snapshot_identifier =
     create_db_snapshot e self (ById db_instance_identifier) db_snapshot_identifier
       ''automated'' None"

definition create_db_instance :: "env \<Rightarrow> RDSBackend \<Rightarrow> db_kwargs \<Rightarrow> DBInstance result" where
  "create_db_instance e self kw =
     (case kw_db_instance_identifier kw of
        None \<Rightarrow> (Inl KeyError, self)
      | Some database_id \<Rightarrow>
          if has_key (databases self) database_id then (Inl DBInstanceAlreadyExists, self)
          else (case validate_db_identifier database_id of
                  Inl err \<Rightarrow> (Inl err, self)
                | Inr _ \<Rightarrow>
          (case DBInstance_init e self kw of
             Inl err \<Rightarrow> (Inl err, self)
           | Inr database' \<Rightarrow>
               (case (case db_cluster_identifier database' of
                        None \<Rightarrow> None
                      | Some cluster_id \<Rightarrow>
                          (case map_of (clusters self) cluster_id of
                             None \<Rightarrow> None | Some c \<Rightarrow> Some (cluster_id, c))) of
                  None \<Rightarrow>
                    (Inr database',
                     self\<lparr>databases := AList.update database_id database' (databases self)\<rparr>)
                | Some (cluster_id, c) \<Rightarrow>
                    if DBCluster.engine c \<in> set (serverless_engines e) \<and>
                       engine_mode c = ''serverless''
                    then (Inl InvalidParameterValue, self)
                    else if DBInstance.engine database' \<noteq> DBCluster.engine c
                    then (Inl InvalidDBInstanceEngine, self)
                    else
                      (Inr database',
                       self\<lparr>clusters :=
                              AList.update cluster_id
                                (c\<lparr>cluster_members := cluster_members c @ [database_id]\<rparr>)
                                (clusters self),
                            databases :=
                              AList.update database_id database' (databases self)\<rparr>)))))"

text \<open>
  \<open>modify_db_instance\<close>. The instance found is an object: when it is renamed while it is
  stored under another key than the identifier asked for, it stays under that key too,
  and the entries under both keys are updated.
\<close>

definition modify_db_instance ::
  "env \<Rightarrow> RDSBackend \<Rightarrow> string \<Rightarrow> db_kwargs \<Rightarrow> DBInstance result" where
  "modify_db_instance e self db_instance_identifier kw =
     (case describe_db_instances self (Some db_instance_identifier) of
        Inl err \<Rightarrow> (Inl err, self)
      | Inr [] \<Rightarrow> (Inl IndexError, self)
      | Inr ((key, database') # _) \<Rightarrow>
          (case (case kw_new_db_instance_identifier kw of
                   None \<Rightarrow> Inr (self, kw, [key])
                 | Some new \<Rightarrow>
                     if \<not> has_key (databases self) db_instance_identifier then Inl KeyError
                     else Inr
                       (self\<lparr>databases :=
                          AList.update new database'
                            (AList.delete db_instance_identifier (databases self))\<rparr>,
                        kw\<lparr>kw_db_instance_identifier := Some new,
                           kw_new_db_instance_identifier := None\<rparr>,
                        (if key = db_instance_identifier then [] else [key]) @ [new])) of
             Inl err \<Rightarrow> (Inl err, self)
           | Inr (self1, kw1, keys) \<Rightarrow>
               if (truthy (kw_preferred_maintenance_window kw1) \<or>
                   truthy (kw_preferred_backup_window kw1)) \<and>
                  truthy (valid_preferred_maintenance_window e
                            (kw_preferred_maintenance_window kw1)
                            (kw_preferred_backup_window kw1))
               then (Inl (RDSClientError ''InvalidParameterValue''), self1)
               else if kw_rotate_master_user_password kw1 = Some True \<and>
                       kw_apply_immediately kw1 \<noteq> Some True
               then (Inl (RDSClientError ''InvalidParameterCombination''), self1)
               else
                 let secret_status =
                       (if kw_rotate_master_user_password kw1 = Some True \<and>
                           kw_apply_immediately kw1 = Some True
                        then Some ''rotating'' else None);
                     initial_state = update database' kw1 secret_status
                 in (Inr initial_state,
                     self1\<lparr>databases :=
                       fold (\<lambda>k. AList.map_entry k
                                   (\<lambda>d. (update d kw1 secret_status)
                                           \<lparr>master_user_secret_status := ''active''\<rparr>))
                         keys (databases self1)\<rparr>)))"

definition stop_db_instance ::
  "env \<Rightarrow> RDSBackend \<Rightarrow> string \<Rightarrow> string option \<Rightarrow> DBInstance result" where
  "stop_db_instance e self db_instance_identifier db_snapshot_identifier =
     (case validate_db_identifier db_instance_identifier of
        Inl err \<Rightarrow> (Inl err, self)
      | Inr _ \<Rightarrow>
     (case describe_db_instances self (Some db_instance_identifier) of
        Inl err \<Rightarrow> (Inl err, self)
      | Inr [] \<Rightarrow> (Inl IndexError, self)
      | Inr ((key, database') # _) \<Rightarrow>
          if is_replica database' \<or>
             (multi_az database' \<and> startswith (lower (DBInstance.engine database')) ''sqlserver'')
          then (Inl InvalidDBClusterStateFaultError, self)
          else if DBInstance.status database' \<noteq> ''available''
          then (Inl InvalidDBInstanceStateError, self)
          else
            (case (if truthy db_snapshot_identifier
                   then statement (create_auto_snapshot e self db_instance_identifier
                          (the db_snapshot_identifier))
                   else (None, self)) of
               (Some err, self1) \<Rightarrow> (Inl err, self1)
             | (None, self1) \<Rightarrow>
                 (Inr (database'\<lparr>DBInstance.status := ''stopped''\<rparr>),
                  self1\<lparr>databases :=
                    AList.map_entry key (\<lambda>d. d\<lparr>DBInstance.status := ''stopped''\<rparr>)
                      (databases self1)\<rparr>))))"

definition start_db_instance :: "env \<Rightarrow> RDSBackend \<Rightarrow> string \<Rightarrow> DBInstance result" where
  "start_db_instance e self db_instance_identifier =
     (case validate_db_identifier db_instance_identifier of
        Inl err \<Rightarrow> (Inl err, self)
      | Inr _ \<Rightarrow>
     (case describe_db_instances self (Some db_instance_identifier) of
        Inl err \<Rightarrow> (Inl err, self)
      | Inr [] \<Rightarrow> (Inl IndexError, self)
      | Inr ((key, database') # _) \<Rightarrow>
          if DBInstance.status database' \<noteq> ''stopped''
          then (Inl InvalidDBInstanceStateError, self)
          else
            (Inr (database'\<lparr>DBInstance.status := ''available''\<rparr>),
             self\<lparr>databases :=
               AList.map_entry key (\<lambda>d. d\<lparr>DBInstance.status := ''available''\<rparr>)
                 (databases self)\<rparr>)))"

text \<open>
  \<open>find_db_from_id\<close>: an ARN is looked up in the backend of its region. The backend of
  another region holds no instance, so \<open>describe_db_instances\<close> raises there, or returns
  an empty list for an empty name.
\<close>

definition find_db_from_id ::
  "env \<Rightarrow> RDSBackend \<Rightarrow> string \<Rightarrow> error + (string \<times> DBInstance)" where
  "find_db_from_id e self db_id =
     (let first = (\<lambda>r. case r of Inl err \<Rightarrow> Inl err | Inr [] \<Rightarrow> Inl IndexError
                             | Inr (x # _) \<Rightarrow> Inr x)
      in if arn_regex_match e db_id then
           (let arn_breakdown = split CHR '':'' db_id in
            case py_index arn_breakdown 3 of
              Inl err \<Rightarrow> Inl err
            | Inr region \<Rightarrow>
                (case py_index arn_breakdown (- 1) of
                   Inl err \<Rightarrow> Inl err
                 | Inr db_name \<Rightarrow>
                     if region = region_name self
                     then first (describe_db_instances self (Some db_name))
                     else if db_name \<noteq> [] then Inl DBInstanceNotFoundError
                     else Inl IndexError))
         else first (describe_db_instances self (Some db_id)))"

definition delete_db_instance ::
  "env \<Rightarrow> RDSBackend \<Rightarrow> string \<Rightarrow> string option \<Rightarrow> DBInstance result" where
  "delete_db_instance e self db_instance_identifier db_snapshot_name =
     (case validate_db_identifier db_instance_identifier of
        Inl err \<Rightarrow> (Inl err, self)
      | Inr _ \<Rightarrow>
     (case map_of (databases self) db_instance_identifier of
        None \<Rightarrow> (Inl DBInstanceNotFoundError, self)
      | Some stored \<Rightarrow>
          if DBInstance.deletion_protection stored then (Inl InvalidParameterValue, self)
          else
            (case (if truthy db_snapshot_name
                   then statement (create_auto_snapshot e self db_instance_identifier
                          (the db_snapshot_name))
                   else (None, self)) of
               (Some err, self1) \<Rightarrow> (Inl err, self1)
             | (None, self1) \<Rightarrow>
                 let database' = stored;
                     self2 = self1\<lparr>databases :=
                               AList.delete db_instance_identifier (databases self1)\<rparr>
                 in
                 (case (if is_replica database' then
                          (case source_db_instance_identifier database' of
                             None \<Rightarrow> Inl TypeError
                           | Some src \<Rightarrow>
                               (case find_db_from_id e self2 src of
                                  Inl err \<Rightarrow> Inl err
                                | Inr (pkey, primary) \<Rightarrow>
                                    if name_attr database' \<notin> set (replicas primary)
                                    then Inl ValueError
                                    else Inr (self2\<lparr>databases :=
                                      AList.map_entry pkey
                                        (\<lambda>p. p\<lparr>replicas :=
                                           remove1 (name_attr database') (replicas p)\<rparr>)
                                        (databases self2)\<rparr>)))
                        else Inr self2) of
                    Inl err \<Rightarrow> (Inl err, self2)
                  | Inr self3 \<Rightarrow>
                      (case (case db_cluster_identifier database' of
                               None \<Rightarrow> None
                             | Some cid \<Rightarrow>
                                 (case map_of (clusters self3) cid of
                                    None \<Rightarrow> None | Some c \<Rightarrow> Some (cid, c))) of
                         None \<Rightarrow> (Inr (database'\<lparr>DBInstance.status := ''deleting''\<rparr>), self3)
                       | Some (cid, c) \<Rightarrow>
                           if db_instance_identifier \<notin> set (cluster_members c)
                           then (Inl ValueError, self3)
                           else
                             (Inr (database'\<lparr>DBInstance.status := ''deleting''\<rparr>),
                              self3\<lparr>clusters :=
                                AList.update cid
                                  (c\<lparr>cluster_members :=
                                       remove1 db_instance_identifier (cluster_members c)\<rparr>)
                                  (clusters self3)\<rparr>))))))"

subsection \<open>The constructor of DBCluster\<close>

definition default_engine_version :: "string \<Rightarrow> error + string" where
  "default_engine_version e =
     lookup [(''aurora'', ''5.6.mysql_aurora.1.22.5''), (''aurora-mysql'', ''5.7.mysql_aurora.2.07.2''),
             (''aurora-postgresql'', ''12.7''), (''mysql'', ''8.0.23''), (''neptune'', ''1.3.2.1''),
             (''postgres'', ''13.4'')] e"

definition default_port :: "string \<Rightarrow> error + int" where
  "default_port e =
     lookup [(''aurora'', 3306), (''aurora-mysql'', 3306), (''aurora-postgresql'', 5432),
             (''mysql'', 3306), (''neptune'', 8182), (''postgres'', 5432)] e"

definition default_allocated_storage :: "string \<Rightarrow> string \<Rightarrow> error + int" where
  "default_allocated_storage e st =
     (case lookup
        [(''aurora'', storage_table 0 0 0), (''aurora-mysql'', storage_table 20 100 10),
         (''aurora-postgresql'', storage_table 20 100 10), (''mysql'', storage_table 20 100 5),
         (''neptune'', storage_table 0 0 0), (''postgres'', storage_table 20 100 5)] e of
        Inl err \<Rightarrow> Inl err
      | Inr t \<Rightarrow> lookup t st)"

text \<open>
  The setter of \<open>master_user_password\<close>: a missing or empty password and one of fewer
  than 8 characters raise.
\<close>

definition set_master_user_password :: "string option \<Rightarrow> error + string" where
  "set_master_user_password val =
     (if \<not> truthy val then Inl InvalidParameterValue
      else if length (the val) < 8 then Inl InvalidParameterValue
      else Inr (the val))"

text \<open>
  \<open>DBCluster.__init__\<close>, in the order of its statements: the engine check, the default
  engine version, the default storage, the master user name and password, the default
  port, the backtrack window and IAM authentication. The status starts as
  \<open>creating\<close>.
\<close>

definition DBCluster_init :: "env \<Rightarrow> string \<Rightarrow> kwargs \<Rightarrow> error + DBCluster" where
  "DBCluster_init e db_cluster_identifier' kw =
     (case (case ckw_engine kw of
              None \<Rightarrow> Inl InvalidParameterValue
            | Some eng \<Rightarrow> if eng \<notin> set (list_cluster_engines e)
                           then Inl InvalidParameterValue else Inr eng) of
        Inl err \<Rightarrow> Inl err
      | Inr eng \<Rightarrow>
     (case (if truthy (ckw_engine_version kw) then Inr (the (ckw_engine_version kw))
            else default_engine_version eng) of
        Inl err \<Rightarrow> Inl err
      | Inr ver \<Rightarrow>
     let st = (case ckw_storage_type kw of
                 None \<Rightarrow> default_storage_type (ckw_iops kw) | Some t \<Rightarrow> t) in
     (case (case ckw_allocated_storage kw of
              None \<Rightarrow> default_allocated_storage eng st | Some a \<Rightarrow> Inr a) of
        Inl err \<Rightarrow> Inl err
      | Inr alloc \<Rightarrow>
     (case (if (\<not> truthy (ckw_master_username kw) \<and> truthy (ckw_global_cluster_identifier kw))
               \<or> eng = ''neptune''
            then Inr None
            else if \<not> truthy (ckw_master_username kw) then Inl InvalidParameterValue
            else map_sum id Some (set_master_user_password (ckw_master_user_password kw))) of
        Inl err \<Rightarrow> Inl err
      | Inr pw \<Rightarrow>
     (case (case ckw_port kw of None \<Rightarrow> default_port eng | Some p \<Rightarrow> Inr p) of
        Inl err \<Rightarrow> Inl err
      | Inr prt \<Rightarrow>
     (case (case ckw_backtrack_window kw of
              None \<Rightarrow> Inr 0
            | Some backtrack \<Rightarrow>
                if backtrack = 0 then Inr 0
                else if eng = ''aurora-mysql'' then
                  (if 0 \<le> backtrack \<and> backtrack \<le> 259200 then Inr backtrack
                   else Inl InvalidParameterValue)
                else Inl InvalidParameterValue) of
        Inl err \<Rightarrow> Inl err
      | Inr bt \<Rightarrow>
     let iam = (case ckw_enable_iam_database_authentication kw of
                  None \<Rightarrow> False | Some v \<Rightarrow> v) in
     if iam \<and> \<not> startswith eng ''aurora-'' then Inl InvalidParameterCombination
     else Inr
       \<lparr>tags = (case ckw_tags kw of None \<Rightarrow> [] | Some ts \<Rightarrow> ts),
        name_attr = db_cluster_identifier',
        private_status = ''creating'',
        DBCluster.engine = eng,
        engine_version = ver,
        engine_mode = (if truthy (ckw_engine_mode kw) then the (ckw_engine_mode kw)
                       else ''provisioned''),
        DBCluster.port = prt,
        DBCluster.storage_type = st,
        DBCluster.allocated_storage = alloc,
        DBCluster.deletion_protection =
          (case ckw_deletion_protection kw of None \<Rightarrow> False | Some v \<Rightarrow> v),
        DBCluster.copy_tags_to_snapshot =
          (case ckw_copy_tags_to_snapshot kw of None \<Rightarrow> False | Some v \<Rightarrow> v),
        master_username = ckw_master_username kw,
        master_user_password = pw,
        global_cluster_identifier = ckw_global_cluster_identifier kw,
        replication_source_identifier = ckw_replication_source_identifier kw,
        read_replica_identifiers = [],
        cluster_members = [],
        is_writer = False,
        backtrack_window = bt,
        iam_auth = iam\<rparr>))))))"

text \<open>
  The property \<open>status\<close> of a cluster: the first read of a cluster that is \<open>creating\<close>
  answers \<open>creating\<close> and leaves the cluster \<open>available\<close>.
\<close>

definition status :: "DBCluster \<Rightarrow> string \<times> DBCluster" where
  "status self =
     (if private_status self = ''creating'' then (''creating'', self\<lparr>private_status := ''available''\<rparr>)
      else (private_status self, self))"

subsection \<open>Methods on DB clusters\<close>

text \<open>
  \<open>describe_db_clusters\<close> with an identifier filters on \<open>db-cluster-id\<close>, which by
  \<open>DBCluster.SUPPORTED_FILTERS\<close> compares \<open>db_cluster_arn\<close> and
  \<open>db_cluster_identifier\<close>, as \<open>describe_db_instances\<close> does for instances.
\<close>

definition describe_db_clusters ::
  "RDSBackend \<Rightarrow> string option \<Rightarrow> error + (string, DBCluster) dict" where
  "describe_db_clusters self cluster_identifier =
     (if truthy cluster_identifier then
        let found = filter (\<lambda>(k, c). arn self DBCluster_class c = Inr (the cluster_identifier)
                                   \<or> name_attr c = the cluster_identifier) (clusters self)
        in if found = [] then Inl DBClusterNotFoundError else Inr found
      else Inr (clusters self))"

text \<open>
  \<open>find_cluster\<close>: the ARN names the region and the account of the backend to ask. A
  backend other than this one holds no cluster, so \<open>describe_db_clusters\<close> raises
  there.
\<close>

definition find_cluster :: "RDSBackend \<Rightarrow> string \<Rightarrow> error + (string \<times> DBCluster)" where
  "find_cluster self cluster_arn =
     (let arn_parts = split CHR '':'' cluster_arn in
      case py_index arn_parts 3 of
        Inl err \<Rightarrow> Inl err
      | Inr region \<Rightarrow>
          (case py_index arn_parts 4 of
             Inl err \<Rightarrow> Inl err
           | Inr account \<Rightarrow>
               if account = account_id self \<and> region = region_name self then
                 (case describe_db_clusters self (Some cluster_arn) of
                    Inl err \<Rightarrow> Inl err
                  | Inr [] \<Rightarrow> Inl IndexError
                  | Inr (x # _) \<Rightarrow> Inr x)
               else Inl DBClusterNotFoundError))"

text \<open>
  \<open>create_db_cluster\<close>: the new cluster is stored, joins the global cluster it names
  (the first member is the writer), is recorded as a replica of its replication source,
  and a copy made before the status becomes \<open>available\<close> is returned.
\<close>

definition create_db_cluster :: "env \<Rightarrow> RDSBackend \<Rightarrow> kwargs \<Rightarrow> DBCluster result" where
  "create_db_cluster e self kw =
     (case ckw_db_cluster_identifier kw of
        None \<Rightarrow> (Inl KeyError, self)
      | Some cluster_id \<Rightarrow>
     (case DBCluster_init e cluster_id kw of
        Inl err \<Rightarrow> (Inl err, self)
      | Inr cluster0 \<Rightarrow>
     let cluster1 =
           (if truthy (global_cluster_identifier cluster0) then
              (case map_of (global_clusters self) (the (global_cluster_identifier cluster0)) of
                 None \<Rightarrow> cluster0
               | Some g \<Rightarrow> cluster0\<lparr>is_writer := (length (members g @ [cluster_id]) = 1)\<rparr>)
            else cluster0);
         self1 = self\<lparr>clusters := AList.update cluster_id cluster1 (clusters self),
                      global_clusters :=
                        (if truthy (global_cluster_identifier cluster0) then
                           (case map_of (global_clusters self)
                                   (the (global_cluster_identifier cluster0)) of
                              None \<Rightarrow> global_clusters self
                            | Some g \<Rightarrow>
                                AList.update (the (global_cluster_identifier cluster0))
                                  (g\<lparr>members := members g @ [cluster_id]\<rparr>)
                                  (global_clusters self))
                         else global_clusters self)\<rparr>
     in
     (case (if truthy (replication_source_identifier cluster1) then
              (case find_cluster self1 (the (replication_source_identifier cluster1)) of
                 Inl err \<Rightarrow> Inl err
               | Inr (okey, original_cluster) \<Rightarrow>
                   (case arn self1 DBCluster_class cluster1 of
                      Inl err \<Rightarrow> Inl err
                    | Inr a \<Rightarrow>
                        Inr (self1\<lparr>clusters :=
                          AList.map_entry okey
                            (\<lambda>c. c\<lparr>read_replica_identifiers :=
                                   read_replica_identifiers c @ [a]\<rparr>)
                            (clusters self1)\<rparr>)))
            else Inr self1) of
        Inl err \<Rightarrow> (Inl err, self1)
      | Inr self2 \<Rightarrow>
          (case map_of (clusters self2) cluster_id of
             None \<Rightarrow> (Inl KeyError, self2)
           | Some cluster' \<Rightarrow>
               let initial_state = cluster'
               in (Inr initial_state,
                   self2\<lparr>clusters :=
                     AList.update cluster_id (cluster'\<lparr>private_status := ''available''\<rparr>)
                       (clusters self2)\<rparr>)))))"

definition private_create_db_cluster_snapshot ::
  "env \<Rightarrow> RDSBackend \<Rightarrow> DBCluster \<Rightarrow> string \<Rightarrow> string \<Rightarrow> tag list
     \<Rightarrow> DBClusterSnapshot result" where
  "private_create_db_cluster_snapshot e self cluster' db_snapshot_identifier snapshot_type' tags' =
     (if has_key (cluster_snapshots self) db_snapshot_identifier
      then (Inl DBClusterSnapshotAlreadyExistsError, self)
      else (case snapshot_limit e of
              Inl err \<Rightarrow> (Inl err, self)
            | Inr limit \<Rightarrow>
                if int (length (cluster_snapshots self)) \<ge> limit
                then (Inl SnapshotQuotaExceededError, self)
                else
                  let snapshot = \<lparr>tags = tags', name_attr = db_snapshot_identifier,
                                  cluster = cluster',
                                  DBClusterSnapshot.snapshot_type = snapshot_type',
                                  DBClusterSnapshot.status = ''available''\<rparr>
                  in (Inr snapshot,
                      self\<lparr>cluster_snapshots :=
                        AList.update db_snapshot_identifier snapshot (cluster_snapshots self)\<rparr>)))"

definition create_db_cluster_snapshot ::
  "env \<Rightarrow> RDSBackend \<Rightarrow> string \<Rightarrow> string \<Rightarrow> string \<Rightarrow> tag list option
     \<Rightarrow> DBClusterSnapshot result" where
  "create_db_cluster_snapshot e self db_cluster_identifier' db_snapshot_identifier
       snapshot_type' tags' =
     (case map_of (clusters self) db_cluster_identifier' of
        None \<Rightarrow> (Inl DBClusterNotFoundError, self)
      | Some cluster' \<Rightarrow>
          let tags0 = (case tags' of None \<Rightarrow> [] | Some ts \<Rightarrow> ts);
              tags1 = (if DBCluster.copy_tags_to_snapshot cluster'
                       then tags0 @ get_tags cluster' else tags0)
          in private_create_db_cluster_snapshot e self cluster' db_snapshot_identifier
               snapshot_type' tags1)"

definition create_auto_cluster_snapshot ::
  "env \<Rightarrow> RDSBackend \<Rightarrow> string \<Rightarrow> string \<Rightarrow> DBClusterSnapshot result" where
  "create_auto_cluster_snapshot e self db_cluster_identifier' db_snapshot_identifier =
     create_db_cluster_snapshot e self db_cluster_identifier' db_snapshot_identifier
       ''automated'' None"

text \<open>
  \<open>remove_from_global_cluster\<close>: every exception is swallowed, so a cluster that is not
  found or is not a member leaves the backend as it is.
\<close>

definition remove_from_global_cluster :: "RDSBackend \<Rightarrow> string \<Rightarrow> string \<Rightarrow> RDSBackend" where
  "remove_from_global_cluster self global_cluster_identifier' db_cluster_identifier' =
     (case map_of (global_clusters self) global_cluster_identifier' of
        None \<Rightarrow> self
      | Some global_cluster \<Rightarrow>
          (case describe_db_clusters self (Some db_cluster_identifier') of
             Inr ((key, _) # _) \<Rightarrow>
               if key \<in> set (members global_cluster)
               then self\<lparr>global_clusters :=
                      AList.update global_cluster_identifier'
                        (global_cluster\<lparr>members := remove1 key (members global_cluster)\<rparr>)
                        (global_clusters self)\<rparr>
               else self
           | _ \<Rightarrow> self))"

definition delete_db_cluster ::
  "env \<Rightarrow> RDSBackend \<Rightarrow> string \<Rightarrow> string option \<Rightarrow> DBCluster result" where
  "delete_db_cluster e self cluster_identifier snapshot_name =
     (case map_of (clusters self) cluster_identifier of
        None \<Rightarrow> (Inl DBClusterNotFoundError, self)
      | Some cluster' \<Rightarrow>
          if DBCluster.deletion_protection cluster' then (Inl InvalidParameterValue, self)
          else if cluster_members cluster' \<noteq> [] then (Inl DBClusterToBeDeletedHasActiveMembers, self)
          else
            let global_id = (if truthy (global_cluster_identifier cluster')
                             then the (global_cluster_identifier cluster') else '''');
                self1 = (if has_key (global_clusters self) global_id
                         then remove_from_global_cluster self global_id cluster_identifier
                         else self)
            in
            (case (if truthy snapshot_name
                   then statement (create_auto_cluster_snapshot e self1 cluster_identifier
                                     (the snapshot_name))
                   else (None, self1)) of
               (Some err, self2) \<Rightarrow> (Inl err, self2)
             | (None, self2) \<Rightarrow>
                 (case map_of (clusters self2) cluster_identifier of
                    None \<Rightarrow> (Inl KeyError, self2)
                  | Some popped \<Rightarrow>
                      (Inr popped,
                       self2\<lparr>clusters := AList.delete cluster_identifier (clusters self2)\<rparr>))))"

text \<open>
  \<open>start_db_cluster\<close>: the comparison reads the property \<open>status\<close>, and so does the
  message of the exception.
\<close>

definition start_db_cluster :: "RDSBackend \<Rightarrow> string \<Rightarrow> DBCluster result" where
  "start_db_cluster self cluster_identifier =
     (case map_of (clusters self) cluster_identifier of
        None \<Rightarrow> (Inl DBClusterNotFoundError, self)
      | Some cluster0 \<Rightarrow>
          (case status cluster0 of
             (s, cluster1) \<Rightarrow>
               if s \<noteq> ''stopped''
               then (Inl InvalidDBClusterStateFault,
                     self\<lparr>clusters :=
                       AList.update cluster_identifier (snd (status cluster1)) (clusters self)\<rparr>)
               else
                 let temp_state = cluster1\<lparr>private_status := ''started''\<rparr>
                 in (Inr temp_state,
                     self\<lparr>clusters :=
                       AList.update cluster_identifier (cluster1\<lparr>private_status := ''available''\<rparr>)
                         (clusters self)\<rparr>)))"

subsection \<open>Tags of a resource named by its ARN\<close>

text \<open>
  \<open>resource_map\<close>: the classes in the order of the dictionary literal, each with the
  keys of its dictionary.
\<close>

definition resource_map :: "RDSBackend \<Rightarrow> (rds_class \<times> string list) list" where
  "resource_map self =
     [(DBCluster_class, map fst (clusters self)),
      (DBClusterParameterGroup_class, map fst (db_cluster_parameter_groups self)),
      (DBClusterSnapshot_class, map fst (cluster_snapshots self)),
      (DBInstance_class, map fst (databases self)),
      (DBParameterGroup_class, map fst (db_parameter_groups self)),
      (DBProxy_class, map fst (db_proxies self)),
      (DBSecurityGroup_class, map fst (security_groups self)),
      (DBSnapshot_class, map fst (database_snapshots self)),
      (DBSubnetGroup_class, map fst (subnet_groups self)),
      (EventSubscription_class, map fst (event_subscriptions self)),
      (ExportTask_class, map fst (export_tasks self)),
      (GlobalCluster_class, map fst (global_clusters self)),
      (OptionGroup_class, map fst (option_groups self))]"

text \<open>
  \<open>_find_resource\<close> returns the object found or \<open>None\<close>; the model names the object
  by its class and its key. A proxy is also found by the end of its ARN.
\<close>

definition find_resource :: "RDSBackend \<Rightarrow> string \<Rightarrow> string \<Rightarrow> (rds_class \<times> string) option" where
  "find_resource self resource_type' resource_name =
     (case find (\<lambda>(resource_class, resources).
                   resource_type' = (case resource_type resource_class of
                                       None \<Rightarrow> '''' | Some t \<Rightarrow> t)
                   \<and> resource_name \<in> set resources) (resource_map self) of
        Some (resource_class, _) \<Rightarrow> Some (resource_class, resource_name)
      | None \<Rightarrow>
          if resource_type' = ''db-proxy'' then
            (case find (\<lambda>(k, resource).
                          case arn self DBProxy_class resource of
                            Inr a \<Rightarrow> endswith a resource_name | Inl _ \<Rightarrow> False)
                    (db_proxies self) of
               Some (k, _) \<Rightarrow> Some (DBProxy_class, k)
             | None \<Rightarrow> None)
          else None)"

text \<open>Reading and storing the tags of the object of a class under a key.\<close>

definition tags_of :: "(string, 'a TaggingMixin_scheme) dict \<Rightarrow> string \<Rightarrow> tag list" where
  "tags_of d k = (case map_of d k of None \<Rightarrow> [] | Some r \<Rightarrow> tags r)"

definition store_tags ::
  "tag list \<Rightarrow> string \<Rightarrow> (string, 'a TaggingMixin_scheme) dict \<Rightarrow> (string, 'a TaggingMixin_scheme) dict" where
  "store_tags ts k d = (case map_of d k of None \<Rightarrow> d | Some r \<Rightarrow> AList.update k (r\<lparr>tags := ts\<rparr>) d)"

fun resource_tags :: "RDSBackend \<Rightarrow> rds_class \<times> string \<Rightarrow> tag list" where
  "resource_tags self (DBCluster_class, k) = tags_of (clusters self) k"
| "resource_tags self (DBClusterParameterGroup_class, k) = tags_of (db_cluster_parameter_groups self) k"
| "resource_tags self (DBClusterSnapshot_class, k) = tags_of (cluster_snapshots self) k"
| "resource_tags self (DBInstance_class, k) = tags_of (databases self) k"
| "resource_tags self (DBParameterGroup_class, k) = tags_of (db_parameter_groups self) k"
| "resource_tags self (DBProxy_class, k) = tags_of (db_proxies self) k"
| "resource_tags self (DBSecurityGroup_class, k) = tags_of (security_groups self) k"
| "resource_tags self (DBSnapshot_class, k) = tags_of (database_snapshots self) k"
| "resource_tags self (DBSubnetGroup_class, k) = tags_of (subnet_groups self) k"
| "resource_tags self (EventSubscription_class, k) = tags_of (event_subscriptions self) k"
| "resource_tags self (ExportTask_class, k) = tags_of (export_tasks self) k"
| "resource_tags self (GlobalCluster_class, k) = tags_of (global_clusters self) k"
| "resource_tags self (OptionGroup_class, k) = tags_of (option_groups self) k"
| "resource_tags self (_, k) = []"

fun set_resource_tags :: "RDSBackend \<Rightarrow> rds_class \<times> string \<Rightarrow> tag list \<Rightarrow> RDSBackend" where
  "set_resource_tags self (DBCluster_class, k) ts =
     self\<lparr>clusters := store_tags ts k (clusters self)\<rparr>"
| "set_resource_tags self (DBClusterParameterGroup_class, k) ts =
     self\<lparr>db_cluster_parameter_groups := store_tags ts k (db_cluster_parameter_groups self)\<rparr>"
| "set_resource_tags self (DBClusterSnapshot_class, k) ts =
     self\<lparr>cluster_snapshots := store_tags ts k (cluster_snapshots self)\<rparr>"
| "set_resource_tags self (DBInstance_class, k) ts =
     self\<lparr>databases := store_tags ts k (databases self)\<rparr>"
| "set_resource_tags self (DBParameterGroup_class, k) ts =
     self\<lparr>db_parameter_groups := store_tags ts k (db_parameter_groups self)\<rparr>"
| "set_resource_tags self (DBProxy_class, k) ts =
     self\<lparr>db_proxies := store_tags ts k (db_proxies self)\<rparr>"
| "set_resource_tags self (DBSecurityGroup_class, k) ts =
     self\<lparr>security_groups := store_tags ts k (security_groups self)\<rparr>"
| "set_resource_tags self (DBSnapshot_class, k) ts =
     self\<lparr>database_snapshots := store_tags ts k (database_snapshots self)\<rparr>"
| "set_resource_tags self (DBSubnetGroup_class, k) ts =
     self\<lparr>subnet_groups := store_tags ts k (subnet_groups self)\<rparr>"
| "set_resource_tags self (EventSubscription_class, k) ts =
     self\<lparr>event_subscriptions := store_tags ts k (event_subscriptions self)\<rparr>"
| "set_resource_tags self (ExportTask_class, k) ts =
     self\<lparr>export_tasks := store_tags ts k (export_tasks self)\<rparr>"
| "set_resource_tags self (GlobalCluster_class, k) ts =
     self\<lparr>global_clusters := store_tags ts k (global_clusters self)\<rparr>"
| "set_resource_tags self (OptionGroup_class, k) ts =
     self\<lparr>option_groups := store_tags ts k (option_groups self)\<rparr>"
| "set_resource_tags self (_, k) ts = self"

definition list_tags_for_resource :: "env \<Rightarrow> RDSBackend \<Rightarrow> string \<Rightarrow> tag list result" where
  "list_tags_for_resource e self arn' =
     (if arn_regex_match e arn' then
        (let arn_breakdown = split CHR '':'' arn' in
         case py_index arn_breakdown (int (length arn_breakdown) - 2) of
           Inl err \<Rightarrow> (Inl err, self)
         | Inr resource_type' \<Rightarrow>
             (case py_index arn_breakdown (int (length arn_breakdown) - 1) of
                Inl err \<Rightarrow> (Inl err, self)
              | Inr resource_name \<Rightarrow>
                  (case find_resource self resource_type' resource_name of
                     Some resource \<Rightarrow>
                       (Inr (get_tags \<lparr>tags = resource_tags self resource\<rparr>), self)
                   | None \<Rightarrow> (Inr [], self))))
      else (Inl (RDSClientError ''InvalidParameterValue''), self))"


definition add_tags_to_resource ::
  "env \<Rightarrow> RDSBackend \<Rightarrow> string \<Rightarrow> tag list \<Rightarrow> tag list result" where
  "add_tags_to_resource e self arn' tags' =
     (if arn_regex_match e arn' then
        (let arn_breakdown = split CHR '':'' arn' in
         case py_index arn_breakdown (- 2) of
           Inl err \<Rightarrow> (Inl err, self)
         | Inr resource_type' \<Rightarrow>
             (case py_index arn_breakdown (- 1) of
                Inl err \<Rightarrow> (Inl err, self)
              | Inr resource_name \<Rightarrow>
                  (case find_resource self resource_type' resource_name of
                     Some resource \<Rightarrow>
                       (case add_tags \<lparr>tags = resource_tags self resource\<rparr> tags' of
                          (ret, tagged) \<Rightarrow>
                            (Inr ret, set_resource_tags self resource (tags tagged)))
                   | None \<Rightarrow> (Inr [], self))))
      else (Inl (RDSClientError ''InvalidParameterValue''), self))"

text \<open>\<open>stop_db_cluster\<close> returns a copy made before the status becomes \<open>stopped\<close>.\<close>

definition stop_db_cluster :: "RDSBackend \<Rightarrow> string \<Rightarrow> DBCluster result" where
  "stop_db_cluster self cluster_identifier =
     (case map_of (clusters self) cluster_identifier of
        None \<Rightarrow> (Inl DBClusterNotFoundError, self)
      | Some cluster0 \<Rightarrow>
          (case status cluster0 of
             (s, cluster1) \<Rightarrow>
               if s \<noteq> ''available''
               then (Inl InvalidDBClusterStateFault,
                     self\<lparr>clusters :=
                       AList.update cluster_identifier (snd (status cluster1)) (clusters self)\<rparr>)
               else
                 (Inr cluster1,
                  self\<lparr>clusters :=
                    AList.update cluster_identifier (cluster1\<lparr>private_status := ''stopped''\<rparr>)
                      (clusters self)\<rparr>)))"

text \<open>
  The ARNs of the resources the backend holds, dictionary by dictionary in the order of
  \<open>resource_map\<close> (an export task has none: its \<open>arn\<close> raises).
\<close>

definition stored_arns :: "RDSBackend \<Rightarrow> (error + string) list" where
  "stored_arns self =
     map (\<lambda>(k, r). arn self DBCluster_class r) (clusters self) @
     map (\<lambda>(k, r). arn self DBClusterParameterGroup_class r) (db_cluster_parameter_groups self) @
     map (\<lambda>(k, r). arn self DBClusterSnapshot_class r) (cluster_snapshots self) @
     map (\<lambda>(k, r). arn self DBInstance_class r) (databases self) @
     map (\<lambda>(k, r). arn self DBParameterGroup_class r) (db_parameter_groups self) @
     map (\<lambda>(k, r). arn self DBProxy_class r) (db_proxies self) @
     map (\<lambda>(k, r). arn self DBSecurityGroup_class r) (security_groups self) @
     map (\<lambda>(k, r). arn self DBSnapshot_class r) (database_snapshots self) @
     map (\<lambda>(k, r). arn self DBSubnetGroup_class r) (subnet_groups self) @
     map (\<lambda>(k, r). arn self EventSubscription_class r) (event_subscriptions self) @
     map (\<lambda>(k, r). arn self ExportTask_class r) (export_tasks self) @
     map (\<lambda>(k, r). arn self GlobalCluster_class r) (global_clusters self) @
     map (\<lambda>(k, r). arn self OptionGroup_class r) (option_groups self)"

subsection \<open>Referential integrity of cluster members\<close>

text \<open>
  The invariant of the specification: every identifier in the \<open>cluster_members\<close> of
  a cluster is a key of \<open>databases\<close>.
\<close>

definition cluster_members_exist :: "RDSBackend \<Rightarrow> bool" where
  "cluster_members_exist self =
     list_all (\<lambda>(cluster_id, c). list_all (has_key (databases self)) (cluster_members c))
       (clusters self)"

subsection \<open>A backend and an environment for the examples\<close>

text \<open>\<open>RDSBackend.__init__\<close>: every dictionary is empty.\<close>

definition RDSBackend_init :: "string \<Rightarrow> string \<Rightarrow> string \<Rightarrow> RDSBackend" where
  "RDSBackend_init region_name' account_id' partition' =
     \<lparr>region_name = region_name', account_id = account_id', partition = partition',
      clusters = [], global_clusters = [], databases = [], database_snapshots = [],
      cluster_snapshots = [], export_tasks = [], event_subscriptions = [],
      db_parameter_groups = [], db_cluster_parameter_groups = [], option_groups = [],
      security_groups = [], subnet_groups = [], db_proxies = []\<rparr>"

text \<open>The empty dictionaries \<open>db_kwargs\<close> and \<open>kwargs\<close>.\<close>

definition no_db_kwargs :: db_kwargs where
  "no_db_kwargs =
     \<lparr>kw_db_instance_identifier = None, kw_new_db_instance_identifier = None,
      kw_db_instance_class = None, kw_engine = None, kw_port = None, kw_iops = None,
      kw_storage_type = None, kw_allocated_storage = None, kw_db_cluster_identifier = None,
      kw_source_db_instance_identifier = None, kw_db_subnet_group_name = None,
      kw_db_parameter_group_name = None, kw_option_group_name = None,
      kw_copy_tags_to_snapshot = None, kw_multi_az = None, kw_preferred_backup_window = None,
      kw_preferred_maintenance_window = None, kw_deletion_protection = None, kw_tags = None,
      kw_rotate_master_user_password = None, kw_apply_immediately = None\<rparr>"

definition no_kwargs :: kwargs where
  "no_kwargs =
     \<lparr>ckw_db_cluster_identifier = None, ckw_engine = None, ckw_engine_version = None,
      ckw_engine_mode = None, ckw_port = None, ckw_iops = None, ckw_storage_type = None,
      ckw_allocated_storage = None, ckw_deletion_protection = None,
      ckw_copy_tags_to_snapshot = None, ckw_master_username = None,
      ckw_master_user_password = None, ckw_global_cluster_identifier = None,
      ckw_replication_source_identifier = None, ckw_backtrack_window = None,
      ckw_enable_iam_database_authentication = None, ckw_tags = None\<rparr>"

text \<open>
  An environment: three partitions, the usual engines, a window check that accepts
  every window, and no snapshot limit set.
\<close>

definition example_env :: env where
  "example_env =
     \<lparr>ARN_PARTITION_REGEX = (\<lambda>s. s \<in> set [''arn:aws'', ''arn:aws-cn'', ''arn:aws-us-gov'']),
      list_cluster_engines =
        [''aurora-mysql'', ''aurora-postgresql'', ''mysql'', ''neptune'', ''postgres''],
      serverless_engines = [''aurora-mysql'', ''aurora-postgresql''],
      valid_db_instance_engine =
        [''aurora-mysql'', ''aurora-postgresql'', ''mariadb'', ''mysql'', ''postgres'',
         ''sqlserver-ee'', ''sqlserver-se''],
      valid_preferred_maintenance_window = (\<lambda>maintenance backup. None),
      MOTO_RDS_SNAPSHOT_LIMIT = None\<rparr>"

definition example_backend :: RDSBackend where
  "example_backend = RDSBackend_init ''us-east-1'' ''123456789012'' ''aws''"

text \<open>
  The arguments of two calls: a PostgreSQL Aurora cluster \<open>c1\<close> and an instance \<open>db1\<close>
  of that cluster.
\<close>

definition example_kwargs :: kwargs where
  "example_kwargs =
     no_kwargs\<lparr>ckw_db_cluster_identifier := Some ''c1'',
               ckw_engine := Some ''aurora-postgresql'',
               ckw_master_username := Some ''admin'',
               ckw_master_user_password := Some ''password1''\<rparr>"

definition example_db_kwargs :: db_kwargs where
  "example_db_kwargs =
     no_db_kwargs\<lparr>kw_db_instance_identifier := Some ''db1'',
                  kw_db_instance_class := Some ''db.t3.medium'',
                  kw_engine := Some ''aurora-postgresql'',
                  kw_db_cluster_identifier := Some ''c1''\<rparr>"

text \<open>The backend after \<open>c1\<close> was created, and after \<open>db1\<close> was created in it.\<close>

definition backend_c1 :: RDSBackend where
  "backend_c1 = snd (create_db_cluster example_env example_backend example_kwargs)"

definition backend_c1_db1 :: RDSBackend where
  "backend_c1_db1 = snd (create_db_instance example_env backend_c1 example_db_kwargs)"

text \<open>The backend after \<open>c1\<close> was created and stopped.\<close>

definition backend_c1_stopped :: RDSBackend where
  "backend_c1_stopped = snd (stop_db_cluster backend_c1 ''c1'')"

text \<open>The backend after \<open>c1\<close> was created with deletion protection, and \<open>db1\<close> in it.\<close>

definition backend_protected :: RDSBackend where
  "backend_protected =
     snd (create_db_instance example_env
            (snd (create_db_cluster example_env example_backend
                    (example_kwargs\<lparr>ckw_deletion_protection := Some True\<rparr>)))
            example_db_kwargs)"

text \<open>
  The backend after \<open>db1\<close> was renamed to \<open>db--2\<close> by \<open>modify_db_instance\<close>, and the
  environment with a snapshot limit of 0.
\<close>

definition backend_renamed :: RDSBackend where
  "backend_renamed =
     snd (modify_db_instance example_env backend_c1_db1 ''db1''
            (no_db_kwargs\<lparr>kw_new_db_instance_identifier := Some ''db--2''\<rparr>))"

text \<open>The backend after \<open>db1\<close> was renamed to \<open>db2\<close>.\<close>

definition backend_db2 :: RDSBackend where
  "backend_db2 =
     snd (modify_db_instance example_env backend_c1_db1 ''db1''
            (no_db_kwargs\<lparr>kw_new_db_instance_identifier := Some ''db2''\<rparr>))"


section \<open>Properties\<close>

subsection \<open>Tagging\<close>

lemma add_tags_list_keys:
  "map fst (add_tags_list old new) =
     filter (\<lambda>k. k \<notin> fst ` set new) (map fst old) @ map fst new"
  by (simp add: add_tags_list_def filter_map o_def)

lemma add_tags_list_idem:
  "add_tags_list (add_tags_list old new) new = add_tags_list old new"
proof -
  have "filter (\<lambda>t. fst t \<notin> fst ` set new) new = []"
    by (simp add: filter_empty_conv)
  then show ?thesis
    by (simp add: add_tags_list_def)
qed

text \<open>
  C8 (as amended). For every taggable resource, whatever its stored tags, and every
  list of new tags with pairwise distinct keys, \<open>add_tags\<close> returns and stores a list in
  which every new tag occurs and is the only tag with its key, every old tag whose key
  is not a new key is kept, and adding the same list again changes nothing. No key
  occurs twice in the result exactly when the old tags whose key is not a new key have
  pairwise distinct keys: old tags that share a key are dropped when that key is a new
  key and are kept, all of them, when it is not.
\<close>

theorem add_tags_distinct_keys:
  assumes "distinct (map fst new)" and "add_tags self new = (r, self')"
  shows "tags self' = r \<and>
    (\<forall>(k, v) \<in> set new. (k, v) \<in> set r \<and> (\<forall>v'. (k, v') \<in> set r \<longrightarrow> v' = v)) \<and>
    (\<forall>t \<in> set (tags self). fst t \<notin> fst ` set new \<longrightarrow> t \<in> set r) \<and>
    (distinct (map fst r) \<longleftrightarrow>
       distinct (map fst (filter (\<lambda>t. fst t \<notin> fst ` set new) (tags self)))) \<and>
    add_tags self' new = (r, self')"
proof -
  from assms(2) have r: "r = add_tags_list (tags self) new"
    and s: "self' = self\<lparr>tags := add_tags_list (tags self) new\<rparr>"
    by (auto simp: add_tags_def Let_def)
  have c1: "tags self' = r" using r s by simp
  have r': "r = filter (\<lambda>t. fst t \<notin> fst ` set new) (tags self) @ new"
    using r by (simp add: add_tags_list_def)
  have d: "distinct (map fst r) \<longleftrightarrow>
       distinct (map fst (filter (\<lambda>t. fst t \<notin> fst ` set new) (tags self)))"
    unfolding r' using assms(1) by auto
  have c2: "\<forall>(k, v) \<in> set new. (k, v) \<in> set r \<and> (\<forall>v'. (k, v') \<in> set r \<longrightarrow> v' = v)"
  proof (clarify, intro conjI allI impI)
    fix k v assume kv: "(k, v) \<in> set new"
    then show "(k, v) \<in> set r" using r' by simp
    fix v' assume "(k, v') \<in> set r"
    then have "(k, v') \<in> set new" using r' kv by force
    with kv assms(1) show "v' = v" by (meson eq_key_imp_eq_value)
  qed
  have c3: "\<forall>t \<in> set (tags self). fst t \<notin> fst ` set new \<longrightarrow> t \<in> set r"
    using r' by auto
  have c5: "add_tags self' new = (r, self')"
    using r s by (simp add: add_tags_def Let_def add_tags_list_idem)
  from c1 c2 c3 d c5 show ?thesis by blast
qed

theorem add_tags_distinct_keys_witness:
  "distinct (map fst [(''a'', ''3'')]) \<and>
   add_tags \<lparr>tags = [(''a'', ''1''), (''a'', ''2''), (''team'', ''db'')]\<rparr> [(''a'', ''3'')] =
     ([(''team'', ''db''), (''a'', ''3'')], \<lparr>tags = [(''team'', ''db''), (''a'', ''3'')]\<rparr>) \<and>
   distinct (map fst [(''team'', ''db''), (''a'', ''3'')])"
proof -
  have a: "distinct (map fst [(''a'', ''3'')])" by simp
  have c: "add_tags \<lparr>tags = [(''a'', ''1''), (''a'', ''2''), (''team'', ''db'')]\<rparr> [(''a'', ''3'')] =
     ([(''team'', ''db''), (''a'', ''3'')], \<lparr>tags = [(''team'', ''db''), (''a'', ''3'')]\<rparr>)"
    by (simp add: add_tags_def add_tags_list_def)
  have k: "distinct (map fst (filter (\<lambda>t. fst t \<notin> fst ` set [(''a'', ''3'')])
      (tags \<lparr>tags = [(''a'', ''1''), (''a'', ''2''), (''team'', ''db'')]\<rparr>)))" by simp
  from add_tags_distinct_keys [OF a c] k a c show ?thesis by blast
qed

text \<open>
  The claim as stated, for every taggable resource, fails: a resource created with two
  tags of the same key keeps both when a tag with another key is added.
\<close>

theorem add_tags_duplicate_key_counterexample:
  "distinct (map fst [(''b'', ''3'')]) \<and>
   \<not> distinct (map fst (fst (add_tags \<lparr>tags = [(''a'', ''1''), (''a'', ''2'')]\<rparr> [(''b'', ''3'')])))"
  by (simp add: add_tags_def add_tags_list_def)

subsection \<open>ARNs\<close>

text \<open>
  C1 (as amended). For every resource whose class declares a \<open>resource_type\<close> and a
  \<open>name\<close> (every class but \<open>ExportTask\<close> and \<open>DBProxyTarget\<close>) and is not
  \<open>GlobalCluster\<close>, the \<open>arn\<close> property is \<open>arn:\<close> partition \<open>:rds:\<close> region \<open>:\<close>
  account id \<open>:\<close> resource type \<open>:\<close> name.
\<close>

theorem arn_format:
  assumes "cls \<notin> {GlobalCluster_class, ExportTask_class, DBProxyTarget_class}"
  shows "\<exists>rt. resource_type cls = Some rt \<and>
           name cls self = Inr (name_attr self) \<and>
           arn backend cls self =
             Inr (''arn:'' @ partition backend @ '':rds:'' @ region_name backend @ '':'' @
                  account_id backend @ '':'' @ rt @ '':'' @ name_attr self)"
  using assms
  by (cases cls) (simp_all add: arn_def RDSBaseModel_arn_def name_def)

theorem arn_format_witness:
  "DBInstance_class \<notin> {GlobalCluster_class, ExportTask_class, DBProxyTarget_class} \<and>
   arn \<lparr>region_name = ''us-east-1'', account_id = ''123456789012'', partition = ''aws''\<rparr>
       DBInstance_class \<lparr>tags = [], name_attr = ''db-1''\<rparr>
     = Inr ''arn:aws:rds:us-east-1:123456789012:db:db-1''"
  using arn_format [of DBInstance_class "\<lparr>tags = [], name_attr = ''db-1''\<rparr>"
      "\<lparr>region_name = ''us-east-1'', account_id = ''123456789012'', partition = ''aws''\<rparr>"]
  by simp

text \<open>
  The claim as stated, for every resource, fails on a global cluster: its ARN has no
  region.
\<close>

theorem arn_global_cluster_counterexample:
  "arn \<lparr>region_name = ''us-east-1'', account_id = ''123456789012'', partition = ''aws''\<rparr>
       GlobalCluster_class \<lparr>tags = [], name_attr = ''g1''\<rparr>
     = Inr ''arn:aws:rds::123456789012:global-cluster:g1'' \<and>
   ''arn:aws:rds::123456789012:global-cluster:g1'' \<noteq>
     ''arn:'' @ ''aws'' @ '':rds:'' @ ''us-east-1'' @ '':'' @ ''123456789012'' @ '':'' @
     ''global-cluster'' @ '':'' @ ''g1''"
  by (simp add: arn_def RDSBaseModel_arn_def name_def)

subsection \<open>The snapshot quota\<close>





subsection \<open>Deleting a cluster\<close>

lemma remove_from_global_cluster_clusters [simp]:
  "clusters (remove_from_global_cluster s g c) = clusters s"
  by (simp add: remove_from_global_cluster_def split: option.splits sum.splits list.splits prod.splits)

lemma private_create_db_cluster_snapshot_clusters:
  "private_create_db_cluster_snapshot e s c sid st tg = (r, s') \<Longrightarrow> clusters s' = clusters s"
  by (auto simp: private_create_db_cluster_snapshot_def Let_def split: if_splits sum.splits)

lemma create_auto_cluster_snapshot_clusters:
  "create_auto_cluster_snapshot e s cid sid = (r, s') \<Longrightarrow> clusters s' = clusters s"
  by (auto simp: create_auto_cluster_snapshot_def create_db_cluster_snapshot_def Let_def
      dest: private_create_db_cluster_snapshot_clusters split: option.splits)

lemma statement_clusters:
  assumes "statement x = (r, s')" and "\<And>v s''. x = (v, s'') \<Longrightarrow> clusters s'' = clusters s"
  shows "clusters s' = clusters s"
  using assms by (cases x) (auto simp: statement_def split: sum.splits)

lemma delete_db_cluster_cases:
  assumes c: "map_of (clusters self) cid = Some c"
  shows "delete_db_cluster e self cid snap = (res, self') \<Longrightarrow>
     (case res of
        Inl err \<Rightarrow> clusters self' = clusters self
      | Inr r \<Rightarrow> r = c \<and> clusters self' = AList.delete cid (clusters self) \<and>
                \<not> DBCluster.deletion_protection c \<and> cluster_members c = [])"
proof -
  assume d: "delete_db_cluster e self cid snap = (res, self')"
  show ?thesis
  proof (cases "DBCluster.deletion_protection c \<or> cluster_members c \<noteq> []")
    case True
    with c d show ?thesis by (auto simp: delete_db_cluster_def split: if_splits)
  next
    case False
    define global_id where "global_id = (if truthy (global_cluster_identifier c)
                             then the (global_cluster_identifier c) else '''')"
    define self1 where "self1 = (if has_key (global_clusters self) global_id
                         then remove_from_global_cluster self global_id cid
                         else self)"
    have c1: "clusters self1 = clusters self" by (simp add: self1_def)
    obtain r2 self2 where st: "(if truthy snap
                   then statement (create_auto_cluster_snapshot e self1 cid (the snap))
                   else (None, self1)) = (r2, self2)" by fastforce
    have c2: "clusters self2 = clusters self"
    proof (cases "truthy snap")
      case True
      with st have "statement (create_auto_cluster_snapshot e self1 cid (the snap)) = (r2, self2)"
        by simp
      then have "clusters self2 = clusters self1"
        by (rule statement_clusters) (auto dest: create_auto_cluster_snapshot_clusters)
      with c1 show ?thesis by simp
    next
      case False
      with st c1 show ?thesis by auto
    qed
    have d': "delete_db_cluster e self cid snap =
        (case (if truthy snap
                   then statement (create_auto_cluster_snapshot e self1 cid (the snap))
                   else (None, self1)) of
               (Some err, self2) \<Rightarrow> (Inl err, self2)
             | (None, self2) \<Rightarrow>
                 (case map_of (clusters self2) cid of
                    None \<Rightarrow> (Inl KeyError, self2)
                  | Some popped \<Rightarrow>
                      (Inr popped,
                       self2\<lparr>clusters := AList.delete cid (clusters self2)\<rparr>)))"
      unfolding delete_db_cluster_def self1_def global_id_def using c False
      by (simp add: Let_def)
    from d have "(case r2 of Some err \<Rightarrow> (Inl err, self2)
        | None \<Rightarrow> (case map_of (clusters self2) cid of
                    None \<Rightarrow> (Inl KeyError, self2)
                  | Some popped \<Rightarrow>
                      (Inr popped,
                       self2\<lparr>clusters := AList.delete cid (clusters self2)\<rparr>))) = (res, self')"
      unfolding d' st by simp
    then show ?thesis using c2 c False
      by (auto split: option.splits)
  qed
qed

text \<open>
  C6 (as amended). For a cluster stored under the identifier, \<open>delete_db_cluster\<close>
  raises \<open>InvalidParameterValue\<close> when deletion protection is on, and raises
  \<open>DBClusterToBeDeletedHasActiveMembers\<close> when deletion protection is off and the
  cluster has members; both leave the backend as it is. Whenever the call raises, the
  cluster is still stored unchanged; when it returns, it returns the cluster, which is no
  longer stored, and the cluster had neither protection nor members.
\<close>

theorem delete_db_cluster_guards:
  assumes c: "map_of (clusters self) cid = Some c"
  shows "(DBCluster.deletion_protection c \<longrightarrow>
            delete_db_cluster e self cid snap = (Inl InvalidParameterValue, self)) \<and>
         (\<not> DBCluster.deletion_protection c \<and> cluster_members c \<noteq> [] \<longrightarrow>
            delete_db_cluster e self cid snap = (Inl DBClusterToBeDeletedHasActiveMembers, self)) \<and>
         (\<forall>err self'. delete_db_cluster e self cid snap = (Inl err, self') \<longrightarrow>
            map_of (clusters self') cid = Some c) \<and>
         (\<forall>r self'. delete_db_cluster e self cid snap = (Inr r, self') \<longrightarrow>
            r = c \<and> map_of (clusters self') cid = None \<and>
            \<not> DBCluster.deletion_protection c \<and> cluster_members c = [])"
proof (intro conjI allI impI)
  assume "DBCluster.deletion_protection c"
  with c show "delete_db_cluster e self cid snap = (Inl InvalidParameterValue, self)"
    by (simp add: delete_db_cluster_def)
next
  assume "\<not> DBCluster.deletion_protection c \<and> cluster_members c \<noteq> []"
  with c show "delete_db_cluster e self cid snap = (Inl DBClusterToBeDeletedHasActiveMembers, self)"
    by (simp add: delete_db_cluster_def)
next
  fix err self' assume "delete_db_cluster e self cid snap = (Inl err, self')"
  from delete_db_cluster_cases [OF c this] c show "map_of (clusters self') cid = Some c" by simp
next
  fix r self' assume d: "delete_db_cluster e self cid snap = (Inr r, self')"
  from delete_db_cluster_cases [OF c d]
  have *: "r = c \<and> clusters self' = AList.delete cid (clusters self) \<and>
                \<not> DBCluster.deletion_protection c \<and> cluster_members c = []" by simp
  then show "r = c" "\<not> DBCluster.deletion_protection c" "cluster_members c = []" by simp_all
  from * show "map_of (clusters self') cid = None"
    by (simp add: delete_conv)
qed

theorem delete_db_cluster_guards_witness:
  "map_of (clusters backend_c1) ''c1'' \<noteq> None \<and>
   (\<exists>r self'. delete_db_cluster example_env backend_c1 ''c1'' None = (Inr r, self') \<and>
      Some r = map_of (clusters backend_c1) ''c1'' \<and> map_of (clusters self') ''c1'' = None) \<and>
   delete_db_cluster example_env backend_c1_db1 ''c1'' None =
     (Inl DBClusterToBeDeletedHasActiveMembers, backend_c1_db1)"
proof -
  have h: "map_of (clusters backend_c1) ''c1'' = Some (the (map_of (clusters backend_c1) ''c1''))"
    by code_simp
  have d: "delete_db_cluster example_env backend_c1 ''c1'' None =
             (Inr (projr (fst (delete_db_cluster example_env backend_c1 ''c1'' None))),
              snd (delete_db_cluster example_env backend_c1 ''c1'' None))"
    by code_simp
  have h2: "map_of (clusters backend_c1_db1) ''c1'' =
              Some (the (map_of (clusters backend_c1_db1) ''c1''))"
    by code_simp
  have m: "\<not> DBCluster.deletion_protection (the (map_of (clusters backend_c1_db1) ''c1'')) \<and>
           cluster_members (the (map_of (clusters backend_c1_db1) ''c1'')) \<noteq> []"
    by code_simp
  from delete_db_cluster_guards [OF h, of example_env None] d
  have "projr (fst (delete_db_cluster example_env backend_c1 ''c1'' None)) =
          the (map_of (clusters backend_c1) ''c1'') \<and>
        map_of (clusters (snd (delete_db_cluster example_env backend_c1 ''c1'' None))) ''c1'' = None"
    by blast
  moreover from delete_db_cluster_guards [OF h2, of example_env None] m
  have "delete_db_cluster example_env backend_c1_db1 ''c1'' None =
     (Inl DBClusterToBeDeletedHasActiveMembers, backend_c1_db1)" by blast
  ultimately show ?thesis using h d by (metis option.distinct(1))
qed

text \<open>
  The claim as stated fails for a protected cluster with members: the protection is
  checked first, so \<open>InvalidParameterValue\<close> is raised, not
  \<open>DBClusterToBeDeletedHasActiveMembers\<close>.
\<close>

theorem delete_db_cluster_protected_members_counterexample:
  "map_option DBCluster.deletion_protection (map_of (clusters backend_protected) ''c1'') = Some True \<and>
   map_option cluster_members (map_of (clusters backend_protected) ''c1'') = Some [''db1''] \<and>
   fst (delete_db_cluster example_env backend_protected ''c1'' None) = Inl InvalidParameterValue \<and>
   InvalidParameterValue \<noteq> DBClusterToBeDeletedHasActiveMembers"
  by code_simp

subsection \<open>Creating and starting a cluster\<close>


lemma sum_bind_dropE:
  assumes "(case x of Inl err \<Rightarrow> Inl err | Inr v \<Rightarrow> f v) = Inr c"
  obtains v where "f v = Inr c"
  using assms by (cases x) auto

lemma if_Inl_elseE:
  assumes "(if b then Inl err else y) = Inr c"
  obtains "\<not> b" and "y = Inr c"
  using assms by (cases b) auto

lemma DBCluster_init_status:
  "DBCluster_init e cid kw = Inr c \<Longrightarrow> private_status c = ''creating'' \<and> name_attr c = cid"
  unfolding DBCluster_init_def Let_def
  apply (erule sum_bind_dropE)+
  apply (erule if_Inl_elseE)
  apply auto
  done


lemma map_of_map_entry_at:
  "map_of (AList.map_entry k f xs) k' =
     (if k' = k then map_option f (map_of xs k) else map_of xs k')"
  by (simp add: map_of_map_entry split: option.splits)

lemma create_db_cluster_Inr:
  assumes "create_db_cluster e self kw = (Inr ret, self')"
  shows "\<exists>cid c0. ckw_db_cluster_identifier kw = Some cid \<and> DBCluster_init e cid kw = Inr c0 \<and>
           private_status ret = private_status c0 \<and> DBCluster.port ret = DBCluster.port c0 \<and>
           DBCluster.engine ret = DBCluster.engine c0 \<and>
           map_of (clusters self') cid = Some (ret\<lparr>private_status := ''available''\<rparr>)"
proof -
  from assms obtain cid where cid: "ckw_db_cluster_identifier kw = Some cid"
    by (cases "ckw_db_cluster_identifier kw") (auto simp: create_db_cluster_def)
  from assms cid obtain c0 where c0: "DBCluster_init e cid kw = Inr c0"
    by (cases "DBCluster_init e cid kw") (auto simp: create_db_cluster_def)
  define cluster1 where "cluster1 =
           (if truthy (global_cluster_identifier c0) then
              (case map_of (global_clusters self) (the (global_cluster_identifier c0)) of
                 None \<Rightarrow> c0
               | Some g \<Rightarrow> c0\<lparr>is_writer := (length (members g @ [cid]) = 1)\<rparr>)
            else c0)"
  define self1 where "self1 = self\<lparr>clusters := AList.update cid cluster1 (clusters self),
                      global_clusters :=
                        (if truthy (global_cluster_identifier c0) then
                           (case map_of (global_clusters self)
                                   (the (global_cluster_identifier c0)) of
                              None \<Rightarrow> global_clusters self
                            | Some g \<Rightarrow>
                                AList.update (the (global_cluster_identifier c0))
                                  (g\<lparr>members := members g @ [cid]\<rparr>)
                                  (global_clusters self))
                         else global_clusters self)\<rparr>"
  define step where "step = (if truthy (replication_source_identifier cluster1) then
              (case find_cluster self1 (the (replication_source_identifier cluster1)) of
                 Inl err \<Rightarrow> Inl err
               | Inr (okey, original_cluster) \<Rightarrow>
                   (case arn self1 DBCluster_class cluster1 of
                      Inl err \<Rightarrow> Inl err
                    | Inr a \<Rightarrow>
                        Inr (self1\<lparr>clusters :=
                          AList.map_entry okey
                            (\<lambda>c. c\<lparr>read_replica_identifiers :=
                                   read_replica_identifiers c @ [a]\<rparr>)
                            (clusters self1)\<rparr>)))
            else Inr self1)"
  have unfold: "create_db_cluster e self kw =
     (case step of
        Inl err \<Rightarrow> (Inl err, self1)
      | Inr self2 \<Rightarrow>
          (case map_of (clusters self2) cid of
             None \<Rightarrow> (Inl KeyError, self2)
           | Some cluster' \<Rightarrow>
               (Inr cluster',
                   self2\<lparr>clusters :=
                     AList.update cid (cluster'\<lparr>private_status := ''available''\<rparr>)
                       (clusters self2)\<rparr>)))"
    by (simp only: create_db_cluster_def step_def self1_def cluster1_def Let_def cid c0
        option.case sum.case)
  have p1: "private_status cluster1 = private_status c0 \<and> DBCluster.port cluster1 = DBCluster.port c0
      \<and> DBCluster.engine cluster1 = DBCluster.engine c0"
    by (simp add: cluster1_def split: option.splits)
  have m1: "map_of (clusters self1) cid = Some cluster1"
    by (simp add: self1_def update_conv')
  from assms unfold obtain self2 where s2: "step = Inr self2"
    by (cases step) auto
  have "\<exists>c2. map_of (clusters self2) cid = Some c2 \<and> private_status c2 = private_status cluster1 \<and>
     DBCluster.port c2 = DBCluster.port cluster1 \<and> DBCluster.engine c2 = DBCluster.engine cluster1"
  proof (cases "truthy (replication_source_identifier cluster1)")
    case False
    with s2 m1 show ?thesis by (simp add: step_def)
  next
    case True
    with s2 obtain okey a where "self2 = self1\<lparr>clusters :=
                          AList.map_entry okey
                            (\<lambda>c. c\<lparr>read_replica_identifiers :=
                                   read_replica_identifiers c @ [a]\<rparr>)
                            (clusters self1)\<rparr>"
      by (auto simp: step_def split: sum.splits prod.splits)
    then show ?thesis using m1 by (auto simp: map_of_map_entry_at)
  qed
  then obtain c2 where c2: "map_of (clusters self2) cid = Some c2"
    "private_status c2 = private_status cluster1" "DBCluster.port c2 = DBCluster.port cluster1"
    "DBCluster.engine c2 = DBCluster.engine cluster1" by blast
  from assms unfold s2 c2(1) have "ret = c2"
    and "self' = self2\<lparr>clusters :=
                     AList.update cid (c2\<lparr>private_status := ''available''\<rparr>)
                       (clusters self2)\<rparr>" by auto
  then show ?thesis using cid c0 c2 p1 by (simp add: update_conv')
qed

lemma start_db_cluster_Inr:
  assumes "start_db_cluster self cid = (Inr ret, self')"
  shows "\<exists>c. map_of (clusters self) cid = Some c \<and> private_status c = ''stopped'' \<and>
           ret = c\<lparr>private_status := ''started''\<rparr> \<and>
           map_of (clusters self') cid = Some (c\<lparr>private_status := ''available''\<rparr>)"
  using assms
  by (auto simp: start_db_cluster_def status_def update_conv' split: option.splits if_splits)


text \<open>
  C9. When \<open>create_db_cluster\<close> returns, the cluster it returns reads as
  \<open>creating\<close> and is the stored cluster but for its status, and the cluster stored
  under the identifier reads as \<open>available\<close>. When \<open>start_db_cluster\<close> returns,
  the cluster it returns reads as \<open>started\<close> and is the stored cluster but for its
  status, and the stored cluster reads as \<open>available\<close>.
\<close>

theorem returned_copy_status:
  "(create_db_cluster e self kw = (Inr ret, self') \<longrightarrow>
      fst (status ret) = ''creating'' \<and>
      (\<exists>cid stored. ckw_db_cluster_identifier kw = Some cid \<and>
         map_of (clusters self') cid = Some stored \<and> fst (status stored) = ''available'' \<and>
         ret = stored\<lparr>private_status := ''creating''\<rparr>)) \<and>
   (start_db_cluster self cid' = (Inr ret', self'') \<longrightarrow>
      fst (status ret') = ''started'' \<and>
      (\<exists>stored. map_of (clusters self'') cid' = Some stored \<and>
         fst (status stored) = ''available'' \<and> ret' = stored\<lparr>private_status := ''started''\<rparr>))"
proof (intro conjI impI)
  assume a: "create_db_cluster e self kw = (Inr ret, self')"
  from create_db_cluster_Inr [OF a] obtain cid c0 where
    h: "ckw_db_cluster_identifier kw = Some cid" "DBCluster_init e cid kw = Inr c0"
       "private_status ret = private_status c0"
       "map_of (clusters self') cid = Some (ret\<lparr>private_status := ''available''\<rparr>)" by blast
  from DBCluster_init_status [OF h(2)] h(3) have st: "private_status ret = ''creating''" by simp
  then show "fst (status ret) = ''creating''" by (simp add: status_def)
  have "ret = (ret\<lparr>private_status := ''available''\<rparr>)\<lparr>private_status := ''creating''\<rparr>"
    using st by simp
  with h(1,4) show "\<exists>cid stored. ckw_db_cluster_identifier kw = Some cid \<and>
         map_of (clusters self') cid = Some stored \<and> fst (status stored) = ''available'' \<and>
         ret = stored\<lparr>private_status := ''creating''\<rparr>"
    by (intro exI [of _ cid] exI [of _ "ret\<lparr>private_status := ''available''\<rparr>"])
       (simp add: status_def)
next
  assume a: "start_db_cluster self cid' = (Inr ret', self'')"
  from start_db_cluster_Inr [OF a] obtain c where
    h: "ret' = c\<lparr>private_status := ''started''\<rparr>"
       "map_of (clusters self'') cid' = Some (c\<lparr>private_status := ''available''\<rparr>)" by blast
  then show "fst (status ret') = ''started''" by (simp add: status_def)
  from h show "\<exists>stored. map_of (clusters self'') cid' = Some stored \<and>
         fst (status stored) = ''available'' \<and> ret' = stored\<lparr>private_status := ''started''\<rparr>"
    by (intro exI [of _ "c\<lparr>private_status := ''available''\<rparr>"]) (simp add: status_def)
qed

theorem returned_copy_status_witness:
  "(\<exists>ret self' stored. create_db_cluster example_env example_backend example_kwargs = (Inr ret, self') \<and>
      fst (status ret) = ''creating'' \<and>
      map_of (clusters self') ''c1'' = Some stored \<and> fst (status stored) = ''available'') \<and>
   (\<exists>ret self' stored. start_db_cluster backend_c1_stopped ''c1'' = (Inr ret, self') \<and>
      fst (status ret) = ''started'' \<and>
      map_of (clusters self') ''c1'' = Some stored \<and> fst (status stored) = ''available'')"
proof -
  have c: "create_db_cluster example_env example_backend example_kwargs =
             (Inr (projr (fst (create_db_cluster example_env example_backend example_kwargs))),
              snd (create_db_cluster example_env example_backend example_kwargs))"
    by code_simp
  have k: "ckw_db_cluster_identifier example_kwargs = Some ''c1''" by code_simp
  have s: "start_db_cluster backend_c1_stopped ''c1'' =
             (Inr (projr (fst (start_db_cluster backend_c1_stopped ''c1''))),
              snd (start_db_cluster backend_c1_stopped ''c1''))"
    by code_simp
  note t = returned_copy_status [where e = example_env and self = example_backend
      and kw = example_kwargs and ?self'' = "snd (start_db_cluster backend_c1_stopped ''c1'')"
      and ?cid' = "''c1''"
      and ret = "projr (fst (create_db_cluster example_env example_backend example_kwargs))"
      and ?self' = "snd (create_db_cluster example_env example_backend example_kwargs)"
      and ?ret' = "projr (fst (start_db_cluster backend_c1_stopped ''c1''))"]
  note a = conjunct1 [OF t, THEN mp, OF c]
  from a k obtain stored where a': "map_of (clusters (snd (create_db_cluster example_env
      example_backend example_kwargs))) ''c1'' = Some stored" "fst (status stored) = ''available''"
    by auto
  have first: "\<exists>ret self' stored. create_db_cluster example_env example_backend example_kwargs = (Inr ret, self') \<and>
      fst (status ret) = ''creating'' \<and>
      map_of (clusters self') ''c1'' = Some stored \<and> fst (status stored) = ''available''"
    using c conjunct1 [OF a] a' by blast
  have s': "start_db_cluster backend_c1_stopped ''c1'' =
             (Inr (projr (fst (start_db_cluster backend_c1_stopped ''c1''))),
              snd (start_db_cluster backend_c1_stopped ''c1'')) \<longrightarrow>
      fst (status (projr (fst (start_db_cluster backend_c1_stopped ''c1'')))) = ''started'' \<and>
      (\<exists>stored. map_of (clusters (snd (start_db_cluster backend_c1_stopped ''c1''))) ''c1'' = Some stored \<and>
         fst (status stored) = ''available'' \<and>
         projr (fst (start_db_cluster backend_c1_stopped ''c1'')) = stored\<lparr>private_status := ''started''\<rparr>)"
    using returned_copy_status [where self = backend_c1_stopped and ?cid' = "''c1''"
      and ?ret' = "projr (fst (start_db_cluster backend_c1_stopped ''c1''))"
      and ?self'' = "snd (start_db_cluster backend_c1_stopped ''c1'')"]
    by (rule conjunct2)
  note b = s' [THEN mp, OF s]
  have second: "\<exists>ret self' stored. start_db_cluster backend_c1_stopped ''c1'' = (Inr ret, self') \<and>
      fst (status ret) = ''started'' \<and>
      map_of (clusters self') ''c1'' = Some stored \<and> fst (status stored) = ''available''"
    using s b by blast
  from first second show ?thesis by (rule conjI)
qed



subsection \<open>Stopping and starting an instance\<close>

lemma snapshot_limit_error: "snapshot_limit e = Inl err \<Longrightarrow> err = ValueError"
  by (auto simp: snapshot_limit_def py_int_def split: option.splits)

lemma create_db_snapshot_databases:
  "create_db_snapshot e s a sid st tg = (r, s') \<Longrightarrow>
     databases s' = databases s \<and> r \<noteq> Inl InvalidDBInstanceStateError"
  unfolding create_db_snapshot_def Let_def
  by (auto split: sum.splits db_instance_arg.splits option.splits if_splits
        dest: snapshot_limit_error)

lemma statement_create_auto_snapshot:
  "statement (create_auto_snapshot e s i sid) = (r, s') \<Longrightarrow>
     databases s' = databases s \<and> r \<noteq> Some InvalidDBInstanceStateError"
  by (cases "create_auto_snapshot e s i sid")
     (auto simp: statement_def create_auto_snapshot_def split: sum.splits
        dest: create_db_snapshot_databases)

lemma describe_found_key:
  "describe_db_instances self (Some ident) = Inr ((key, d) # rest) \<Longrightarrow>
     (key, d) \<in> set (databases self)"
  unfolding describe_db_instances_def Let_def
  by (auto split: if_splits simp: filter_eq_Cons_iff truthy_def)

lemma map_of_in_set_Some: "(k, v) \<in> set xs \<Longrightarrow> \<exists>v'. map_of xs k = Some v'"
  by (metis map_of_eq_None_iff not_None_eq fst_conv image_eqI)

lemma stop_db_instance_found:
  assumes valid: "validate_db_identifier ident = Inr ()"
    and found: "describe_db_instances self (Some ident) = Inr ((key, d) # rest)"
    and nr: "\<not> is_replica d"
    and ns: "\<not> (multi_az d \<and> startswith (lower (DBInstance.engine d)) ''sqlserver'')"
  shows "stop_db_instance e self ident snap =
     (if DBInstance.status d \<noteq> ''available'' then (Inl InvalidDBInstanceStateError, self)
      else (case (if truthy snap
                   then statement (create_auto_snapshot e self ident (the snap))
                   else (None, self)) of
               (Some err, self1) \<Rightarrow> (Inl err, self1)
             | (None, self1) \<Rightarrow>
                 (Inr (d\<lparr>DBInstance.status := ''stopped''\<rparr>),
                  self1\<lparr>databases :=
                    AList.map_entry key (\<lambda>d. d\<lparr>DBInstance.status := ''stopped''\<rparr>)
                      (databases self1)\<rparr>)))"
  using nr ns by (auto simp add: stop_db_instance_def valid found)

lemma start_db_instance_found:
  assumes valid: "validate_db_identifier ident = Inr ()"
    and found: "describe_db_instances self (Some ident) = Inr ((key, d) # rest)"
  shows "start_db_instance e self ident =
     (if DBInstance.status d \<noteq> ''stopped'' then (Inl InvalidDBInstanceStateError, self)
      else (Inr (d\<lparr>DBInstance.status := ''available''\<rparr>),
             self\<lparr>databases :=
               AList.map_entry key (\<lambda>d. d\<lparr>DBInstance.status := ''available''\<rparr>)
                 (databases self)\<rparr>))"
  by (simp add: start_db_instance_def valid found)

text \<open>
  C3 (as amended). Let the identifier pass \<open>_validate_db_identifier\<close> and name an
  instance of the backend (the first one \<open>describe_db_instances\<close> finds) that is
  neither a read replica nor a multi-AZ SQL Server instance. Then \<open>stop_db_instance\<close>
  raises \<open>InvalidDBInstanceStateError\<close> exactly when the status is not
  \<open>available\<close>, and when it returns, the instance returned and the instance stored
  are \<open>stopped\<close>; \<open>start_db_instance\<close> raises \<open>InvalidDBInstanceStateError\<close>
  exactly when the status is not \<open>stopped\<close>, and when it returns, the instance
  returned and the instance stored are \<open>available\<close>.
\<close>

theorem stop_start_db_instance:
  assumes valid: "validate_db_identifier ident = Inr ()"
    and found: "describe_db_instances self (Some ident) = Inr ((key, d) # rest)"
    and nr: "\<not> is_replica d"
    and ns: "\<not> (multi_az d \<and> startswith (lower (DBInstance.engine d)) ''sqlserver'')"
  shows "((\<exists>self'. stop_db_instance e self ident snap = (Inl InvalidDBInstanceStateError, self'))
            \<longleftrightarrow> DBInstance.status d \<noteq> ''available'') \<and>
         (\<forall>r self'. stop_db_instance e self ident snap = (Inr r, self') \<longrightarrow>
            r = d\<lparr>DBInstance.status := ''stopped''\<rparr> \<and>
            map_option DBInstance.status (map_of (databases self') key) = Some ''stopped'') \<and>
         ((\<exists>self'. start_db_instance e self ident = (Inl InvalidDBInstanceStateError, self'))
            \<longleftrightarrow> DBInstance.status d \<noteq> ''stopped'') \<and>
         (\<forall>r self'. start_db_instance e self ident = (Inr r, self') \<longrightarrow>
            r = d\<lparr>DBInstance.status := ''available''\<rparr> \<and>
            map_option DBInstance.status (map_of (databases self') key) = Some ''available'')"
proof -
  note stop = stop_db_instance_found [OF valid found nr ns, of e snap]
  note start = start_db_instance_found [OF valid found, of e]
  from describe_found_key [OF found] obtain v where v: "map_of (databases self) key = Some v"
    using map_of_in_set_Some by fastforce
  obtain r1 self1 where st: "(if truthy snap
                   then statement (create_auto_snapshot e self ident (the snap))
                   else (None, self)) = (r1, self1)" by fastforce
  have s1: "databases self1 = databases self \<and> r1 \<noteq> Some InvalidDBInstanceStateError"
    using st by (auto split: if_splits dest: statement_create_auto_snapshot)
  have a: "(\<exists>self'. stop_db_instance e self ident snap = (Inl InvalidDBInstanceStateError, self'))
            \<longleftrightarrow> DBInstance.status d \<noteq> ''available''"
    unfolding stop st using s1 by (auto split: option.splits)
  have b: "\<forall>r self'. stop_db_instance e self ident snap = (Inr r, self') \<longrightarrow>
            r = d\<lparr>DBInstance.status := ''stopped''\<rparr> \<and>
            map_option DBInstance.status (map_of (databases self') key) = Some ''stopped''"
    unfolding stop st using s1 v by (auto split: option.splits if_splits simp: map_of_map_entry_at)
  have c: "(\<exists>self'. start_db_instance e self ident = (Inl InvalidDBInstanceStateError, self'))
            \<longleftrightarrow> DBInstance.status d \<noteq> ''stopped''"
    unfolding start by auto
  have d: "\<forall>r self'. start_db_instance e self ident = (Inr r, self') \<longrightarrow>
            r = d\<lparr>DBInstance.status := ''available''\<rparr> \<and>
            map_option DBInstance.status (map_of (databases self') key) = Some ''available''"
    unfolding start using v by (auto split: if_splits simp: map_of_map_entry_at)
  from a b c d show ?thesis by blast
qed

theorem stop_start_db_instance_witness:
  "validate_db_identifier ''db1'' = Inr () \<and>
   (\<exists>r self'. stop_db_instance example_env backend_c1_db1 ''db1'' None = (Inr r, self') \<and>
      DBInstance.status r = ''stopped'' \<and>
      map_option DBInstance.status (map_of (databases self') ''db1'') = Some ''stopped'') \<and>
   (\<exists>self'. start_db_instance example_env backend_c1_db1 ''db1'' =
      (Inl InvalidDBInstanceStateError, self'))"
proof -
  have valid: "validate_db_identifier ''db1'' = Inr ()" by code_simp
  have found: "describe_db_instances backend_c1_db1 (Some ''db1'') =
      Inr ((''db1'', the (map_of (databases backend_c1_db1) ''db1'')) # [])" by code_simp
  have nr: "\<not> is_replica (the (map_of (databases backend_c1_db1) ''db1''))" by code_simp
  have ns: "\<not> (multi_az (the (map_of (databases backend_c1_db1) ''db1'')) \<and>
      startswith (lower (DBInstance.engine (the (map_of (databases backend_c1_db1) ''db1''))))
        ''sqlserver'')" by code_simp
  have av: "DBInstance.status (the (map_of (databases backend_c1_db1) ''db1'')) \<noteq> ''stopped''"
    by code_simp
  have st: "stop_db_instance example_env backend_c1_db1 ''db1'' None =
      (Inr (projr (fst (stop_db_instance example_env backend_c1_db1 ''db1'' None))),
       snd (stop_db_instance example_env backend_c1_db1 ''db1'' None))" by code_simp
  note t = stop_start_db_instance [OF valid found nr ns, of example_env None]
  from t av have c: "\<exists>self'. start_db_instance example_env backend_c1_db1 ''db1'' =
      (Inl InvalidDBInstanceStateError, self')" by blast
  from t st have b: "projr (fst (stop_db_instance example_env backend_c1_db1 ''db1'' None)) =
        (the (map_of (databases backend_c1_db1) ''db1''))\<lparr>DBInstance.status := ''stopped''\<rparr> \<and>
      map_option DBInstance.status
        (map_of (databases (snd (stop_db_instance example_env backend_c1_db1 ''db1'' None))) ''db1'')
        = Some ''stopped''" by blast
  then have "DBInstance.status (projr (fst (stop_db_instance example_env backend_c1_db1 ''db1'' None)))
      = ''stopped''" by simp
  with b st have "\<exists>r self'. stop_db_instance example_env backend_c1_db1 ''db1'' None = (Inr r, self') \<and>
      DBInstance.status r = ''stopped'' \<and>
      map_option DBInstance.status (map_of (databases self') ''db1'') = Some ''stopped''"
    by blast
  with valid c show ?thesis by blast
qed

text \<open>
  The claim as stated, for every existing instance, fails: \<open>modify_db_instance\<close>
  renames an instance without validating the new identifier, and for the instance
  \<open>db--2\<close>, which is \<open>available\<close>, \<open>start_db_instance\<close> raises
  \<open>InvalidDBInstanceIdentifier\<close>, not \<open>InvalidDBInstanceStateError\<close>.
\<close>

theorem start_db_instance_invalid_identifier_counterexample:
  "map_option DBInstance.status (map_of (databases backend_renamed) ''db--2'') = Some ''available'' \<and>
   map_option is_replica (map_of (databases backend_renamed) ''db--2'') = Some False \<and>
   map_option multi_az (map_of (databases backend_renamed) ''db--2'') = Some False \<and>
   ''available'' \<noteq> ''stopped'' \<and>
   start_db_instance example_env backend_renamed ''db--2'' =
     (Inl InvalidDBInstanceIdentifier, backend_renamed)"
  by code_simp

subsection \<open>Identifier validation\<close>

lemma fullmatch_Seq_iff:
  "fullmatch (Seq r1 r2) s \<longleftrightarrow> (\<exists>u v. s = u @ v \<and> fullmatch r1 u \<and> fullmatch r2 v)"
proof
  assume "fullmatch (Seq r1 r2) s"
  then obtain i where "fullmatch r1 (take i s)" "fullmatch r2 (drop i s)"
    unfolding fullmatch.simps list_ex_iff by blast
  then show "\<exists>u v. s = u @ v \<and> fullmatch r1 u \<and> fullmatch r2 v"
    by (metis append_take_drop_id)
next
  assume "\<exists>u v. s = u @ v \<and> fullmatch r1 u \<and> fullmatch r2 v"
  then obtain u v where "s = u @ v" "fullmatch r1 u" "fullmatch r2 v" by blast
  then have "length u \<in> set [0..<Suc (length s)]" "fullmatch r1 (take (length u) s)"
    "fullmatch r2 (drop (length u) s)" by auto
  then show "fullmatch (Seq r1 r2) s"
    unfolding fullmatch.simps list_ex_iff by blast
qed

lemma not_ahead_iff:
  "not_ahead r s \<longleftrightarrow> \<not> (\<exists>u v. s = u @ v \<and> fullmatch r u)"
proof -
  have "(\<exists>i \<in> set [0..<Suc (length s)]. fullmatch r (take i s)) \<longleftrightarrow>
        (\<exists>u v. s = u @ v \<and> fullmatch r u)"
  proof
    assume "\<exists>i \<in> set [0..<Suc (length s)]. fullmatch r (take i s)"
    then obtain i where "fullmatch r (take i s)" by blast
    then show "\<exists>u v. s = u @ v \<and> fullmatch r u" by (metis append_take_drop_id)
  next
    assume "\<exists>u v. s = u @ v \<and> fullmatch r u"
    then obtain u v where "s = u @ v" "fullmatch r u" by blast
    then have "length u \<in> set [0..<Suc (length s)]" "fullmatch r (take (length u) s)" by auto
    then show "\<exists>i \<in> set [0..<Suc (length s)]. fullmatch r (take i s)" by blast
  qed
  then show ?thesis by (simp add: not_ahead_def list_ex_iff)
qed

lemma alnum_not_hyphen: "alnum c \<Longrightarrow> c \<noteq> CHR ''-''"
  by (auto simp: alnum_def is_lower_def is_upper_def is_digit_def)

lemma alnum_hyphen_alnum: "alnum c \<Longrightarrow> alnum_hyphen c"
  by (auto simp: alnum_def alnum_hyphen_def)

lemma alnum_hyphen_isalpha: "isalpha c \<Longrightarrow> alnum_hyphen c"
  by (auto simp: isalpha_def alnum_hyphen_def)

lemma pattern_match:
  assumes "fullmatch db_identifier_pattern s"
  shows "1 \<le> length s \<and> length s \<le> 63 \<and> list_all alnum_hyphen s \<and> last s \<noteq> CHR ''-''"
proof -
  from assms obtain a w where s: "s = a @ w" and a: "a = [] \<or> fullmatch (Chr isalpha) a"
    and w: "fullmatch (Seq (Rep alnum_hyphen 0 (Some 61)) (Chr alnum)) w"
    unfolding db_identifier_pattern_def fullmatch_Seq_iff by auto
  from w obtain b z where w': "w = b @ z" and b: "length b \<le> 61" "list_all alnum_hyphen b"
    and z: "fullmatch (Chr alnum) z"
    unfolding fullmatch_Seq_iff by auto
  from z obtain c where c: "z = [c]" "alnum c"
    by (cases z) (auto split: list.splits)
  from a have a': "length a \<le> 1 \<and> list_all alnum_hyphen a"
    by (cases a) (auto split: list.splits simp: alnum_hyphen_isalpha)
  show ?thesis
    using s w' b c a' by (auto simp: alnum_hyphen_alnum alnum_not_hyphen)
qed

lemma no_double_hyphen:
  assumes na: "not_ahead (Seq (Rep dot 0 None) (Lit ''--'')) s" and nl: "CHR 0x0A \<notin> set s"
  shows "\<not> list_ex (\<lambda>i. s ! i = CHR ''-'' \<and> s ! Suc i = CHR ''-'') [0..<length s - 1]"
proof
  assume "list_ex (\<lambda>i. s ! i = CHR ''-'' \<and> s ! Suc i = CHR ''-'') [0..<length s - 1]"
  then obtain i where i0: "i < length s - 1" and i': "s ! i = CHR ''-''" "s ! Suc i = CHR ''-''"
    unfolding list_ex_iff by auto
  from i0 have "Suc i < length s" by arith
  note i = this i' 
  have "s = take i s @ (s ! i) # (s ! Suc i) # drop (Suc (Suc i)) s"
    using i(1) by (metis Cons_nth_drop_Suc Suc_lessD append_take_drop_id)
  then have s: "s = (take i s @ ''--'') @ drop (Suc (Suc i)) s"
    using i(2,3) by simp
  have "list_all dot (take i s)"
    using nl by (auto simp: list_all_iff dot_def dest: in_set_takeD)
  then have "fullmatch (Seq (Rep dot 0 None) (Lit ''--'')) (take i s @ ''--'')"
    unfolding fullmatch_Seq_iff by auto
  with s na show False unfolding not_ahead_iff by blast
qed

lemma validate_db_identifier_constraints:
  assumes "validate_db_identifier s = Inr ()" and nl: "CHR 0x0A \<notin> set s"
  shows "identifier_constraints s"
proof -
  from assms(1) have na: "not_ahead (Seq (Rep dot 0 None) (Lit ''--'')) s"
    and md: "match_dollar db_identifier_pattern s"
    and al: "case s of [] \<Rightarrow> False | c # _ \<Rightarrow> isalpha c"
    by (auto simp: validate_db_identifier_def split: if_splits)
  from al have ne: "s \<noteq> []" and hd: "isalpha (hd s)" by (cases s; simp)+
  from ne nl have "last s \<noteq> CHR 0x0A" using last_in_set by metis
  with md have fm: "fullmatch db_identifier_pattern s" by (auto simp: match_dollar_def)
  from pattern_match [OF fm] no_double_hyphen [OF na nl] hd show ?thesis
    by (simp add: identifier_constraints_def)
qed

lemma validate_db_identifier_cases:
  "validate_db_identifier s = Inr () \<or> validate_db_identifier s = Inl InvalidDBInstanceIdentifier"
  by (simp add: validate_db_identifier_def)

text \<open>
  The other direction: an identifier that meets the constraints passes the
  validation, so on identifiers without a newline the validation and the constraints
  agree.
\<close>

lemma alnum_hyphen_cases: "alnum_hyphen c \<Longrightarrow> c \<noteq> CHR ''-'' \<Longrightarrow> alnum c"
  by (auto simp: alnum_def alnum_hyphen_def)

lemma isalpha_alnum: "isalpha c \<Longrightarrow> alnum c"
  by (auto simp: alnum_def isalpha_def)

lemma constraints_pattern:
  assumes "identifier_constraints s"
  shows "fullmatch db_identifier_pattern s"
proof -
  from assms have ne: "s \<noteq> []" and len: "length s \<le> 63" and all: "list_all alnum_hyphen s"
    and hd: "isalpha (hd s)" and la: "last s \<noteq> CHR ''-''"
    by (auto simp: identifier_constraints_def)
  from all ne la have lz: "alnum (last s)"
    by (auto simp: list_all_iff intro: alnum_hyphen_cases)
  show ?thesis
  proof (cases "length s = 1")
    case True
    then obtain c where c: "s = [c]" by (cases s) auto
    with lz have "fullmatch (Seq (Rep alnum_hyphen 0 (Some 61)) (Chr alnum)) ([] @ [c])"
      unfolding fullmatch_Seq_iff by (intro exI [of _ "[]"] exI [of _ "[c]"]) simp
    then have "fullmatch db_identifier_pattern ([] @ [c])"
      unfolding db_identifier_pattern_def fullmatch_Seq_iff [of "Opt (Chr isalpha)"]
      by (intro exI [of _ "[]"] exI [of _ "[c]"]) simp
    with c show ?thesis by simp
  next
    case False
    with ne have l2: "2 \<le> length s" by (cases s) (auto simp: Suc_le_eq)
    define b where "b = butlast (tl s)"
    have s: "s = [hd s] @ (b @ [last s])"
      using l2 unfolding b_def
      by (cases s) (auto simp: Suc_le_eq)
    have lb: "length b \<le> 61" using len l2 by (simp add: b_def)
    have ab: "list_all alnum_hyphen b"
      using all ne unfolding b_def list_all_iff
      by (metis in_set_butlastD list.set_sel(2))
    have w: "fullmatch (Seq (Rep alnum_hyphen 0 (Some 61)) (Chr alnum)) (b @ [last s])"
      unfolding fullmatch_Seq_iff using lb ab lz
      by (intro exI [of _ b] exI [of _ "[last s]"]) simp
    have "fullmatch db_identifier_pattern ([hd s] @ (b @ [last s]))"
      unfolding db_identifier_pattern_def fullmatch_Seq_iff [of "Opt (Chr isalpha)"]
      using w hd by (intro exI [of _ "[hd s]"] exI [of _ "b @ [last s]"]) simp
    with s show ?thesis by simp
  qed
qed

lemma constraints_no_ahead:
  assumes "identifier_constraints s"
  shows "not_ahead (Seq (Rep dot 0 None) (Lit ''--'')) s"
  unfolding not_ahead_iff
proof
  assume "\<exists>u v. s = u @ v \<and> fullmatch (Seq (Rep dot 0 None) (Lit ''--'')) u"
  then obtain p v where s: "s = (p @ ''--'') @ v"
    unfolding fullmatch_Seq_iff by auto
  then have "length p < length s - 1" "s ! length p = CHR ''-''" "s ! Suc (length p) = CHR ''-''"
    by (auto simp: nth_append)
  then have "list_ex (\<lambda>i. s ! i = CHR ''-'' \<and> s ! Suc i = CHR ''-'') [0..<length s - 1]"
    unfolding list_ex_iff by auto
  with assms show False by (simp add: identifier_constraints_def)
qed

lemma constraints_accepted:
  assumes "identifier_constraints s"
  shows "validate_db_identifier s = Inr ()"
proof -
  from assms have "s \<noteq> []" "isalpha (hd s)" by (auto simp: identifier_constraints_def)
  then have "case s of [] \<Rightarrow> False | c # _ \<Rightarrow> isalpha c" by (cases s) auto
  with constraints_pattern [OF assms] constraints_no_ahead [OF assms] show ?thesis
    by (simp add: validate_db_identifier_def match_dollar_def)
qed

lemma validate_db_identifier_iff:
  "CHR 0x0A \<notin> set s \<Longrightarrow> validate_db_identifier s = Inr () \<longleftrightarrow> identifier_constraints s"
  using validate_db_identifier_constraints constraints_accepted by blast

text \<open>
  The dollar of the pattern also matches before a final newline, so the validation
  accepts exactly the identifiers that meet the constraints and those identifiers
  followed by one newline.
\<close>

lemma alnum_hyphen_not_newline: "alnum_hyphen c \<Longrightarrow> c \<noteq> CHR 0x0A"
  by (auto simp: alnum_hyphen_def is_lower_def is_upper_def is_digit_def)

lemma pattern_no_newline:
  assumes "fullmatch db_identifier_pattern w"
  shows "CHR 0x0A \<notin> set w"
  using pattern_match [OF assms] by (auto simp: list_all_iff dest: alnum_hyphen_not_newline)

lemma validate_db_identifier_accepts:
  assumes v: "validate_db_identifier s = Inr ()"
  shows "identifier_constraints s \<or>
         (s \<noteq> [] \<and> last s = CHR 0x0A \<and> identifier_constraints (butlast s))"
proof -
  from v have na: "not_ahead (Seq (Rep dot 0 None) (Lit ''--'')) s"
    and md: "match_dollar db_identifier_pattern s"
    and al: "case s of [] \<Rightarrow> False | c # _ \<Rightarrow> isalpha c"
    by (auto simp: validate_db_identifier_def split: if_splits)
  from md consider (full) "fullmatch db_identifier_pattern s"
    | (nl) "s \<noteq> []" "last s = CHR 0x0A" "fullmatch db_identifier_pattern (butlast s)"
    by (auto simp: match_dollar_def)
  then show ?thesis
  proof cases
    case full
    from validate_db_identifier_constraints [OF v pattern_no_newline [OF full]]
    show ?thesis by simp
  next
    case nl
    define w where "w = butlast s"
    from nl(1) have s: "s = w @ [last s]" by (simp add: w_def)
    from pattern_match [OF nl(3)] have "1 \<le> length w" by (simp add: w_def)
    then have wne: "w \<noteq> []" by auto
    from al s wne have alw: "case w of [] \<Rightarrow> False | c # _ \<Rightarrow> isalpha c"
      by (cases w) (auto split: list.splits)
    have naw: "not_ahead (Seq (Rep dot 0 None) (Lit ''--'')) w"
      unfolding not_ahead_iff
    proof
      assume "\<exists>u x. w = u @ x \<and> fullmatch (Seq (Rep dot 0 None) (Lit ''--'')) u"
      then obtain u x where "w = u @ x" "fullmatch (Seq (Rep dot 0 None) (Lit ''--'')) u" by blast
      with s have "s = u @ (x @ [last s])" by simp
      with na \<open>fullmatch (Seq (Rep dot 0 None) (Lit ''--'')) u\<close> show False
        unfolding not_ahead_iff by blast
    qed
    from nl(3) have "match_dollar db_identifier_pattern w" by (simp add: match_dollar_def w_def)
    with naw alw have vw: "validate_db_identifier w = Inr ()"
      by (simp add: validate_db_identifier_def)
    from nl(3) have "CHR 0x0A \<notin> set w" unfolding w_def by (rule pattern_no_newline)
    from validate_db_identifier_constraints [OF vw this] nl(1,2) show ?thesis
      by (simp add: w_def)
  qed
qed

lemma newline_accepted:
  assumes "identifier_constraints w"
  shows "validate_db_identifier (w @ [CHR 0x0A]) = Inr ()"
proof -
  from assms have wne: "w \<noteq> []" and hd: "isalpha (hd w)"
    by (auto simp: identifier_constraints_def)
  then have al: "case w @ [CHR 0x0A] of [] \<Rightarrow> False | c # _ \<Rightarrow> isalpha c"
    by (cases w) auto
  have md: "match_dollar db_identifier_pattern (w @ [CHR 0x0A])"
    using constraints_pattern [OF assms] by (simp add: match_dollar_def)
  have na: "not_ahead (Seq (Rep dot 0 None) (Lit ''--'')) (w @ [CHR 0x0A])"
    unfolding not_ahead_iff
  proof
    assume "\<exists>u v. w @ [CHR 0x0A] = u @ v \<and> fullmatch (Seq (Rep dot 0 None) (Lit ''--'')) u"
    then obtain u v where uv: "w @ [CHR 0x0A] = u @ v"
      and fu: "fullmatch (Seq (Rep dot 0 None) (Lit ''--'')) u" by blast
    from fu obtain p where u: "u = p @ ''--''" unfolding fullmatch_Seq_iff by auto
    have "v \<noteq> []"
    proof
      assume "v = []"
      with uv u have "last (w @ [CHR 0x0A]) = last (p @ ''--'')" by simp
      then show False by simp
    qed
    with uv have "w = u @ butlast v" by (metis butlast_append butlast_snoc)
    with fu constraints_no_ahead [OF assms] show False unfolding not_ahead_iff by blast
  qed
  from na md al show ?thesis by (simp add: validate_db_identifier_def)
qed

lemma validate_db_identifier_exact:
  "validate_db_identifier s = Inr () \<longleftrightarrow>
     identifier_constraints s \<or>
     (s \<noteq> [] \<and> last s = CHR 0x0A \<and> identifier_constraints (butlast s))"
proof
  assume "validate_db_identifier s = Inr ()"
  then show "identifier_constraints s \<or>
     (s \<noteq> [] \<and> last s = CHR 0x0A \<and> identifier_constraints (butlast s))"
    by (rule validate_db_identifier_accepts)
next
  assume "identifier_constraints s \<or>
     (s \<noteq> [] \<and> last s = CHR 0x0A \<and> identifier_constraints (butlast s))"
  then show "validate_db_identifier s = Inr ()"
  proof
    assume "identifier_constraints s"
    then show ?thesis by (rule constraints_accepted)
  next
    assume a: "s \<noteq> [] \<and> last s = CHR 0x0A \<and> identifier_constraints (butlast s)"
    then have "s = butlast s @ [CHR 0x0A]" by (metis append_butlast_last_id)
    with newline_accepted [of "butlast s"] a show ?thesis by simp
  qed
qed

text \<open>
  C4 (as amended). For an identifier that does not meet the constraints (1 to 63
  letters, digits or hyphens, the first a letter, the last not a hyphen, no two hyphens
  in a row) and is not an identifier that meets them followed by one newline,
  \<open>stop_db_instance\<close>, \<open>start_db_instance\<close> and \<open>delete_db_instance\<close> raise
  \<open>InvalidDBInstanceIdentifier\<close> and leave the backend as it is, and so does
  \<open>create_db_instance\<close> when the identifier is not already a key of \<open>databases\<close>.
\<close>

theorem invalid_identifier_rejected:
  assumes bad: "\<not> identifier_constraints ident"
    and nl: "\<not> (ident \<noteq> [] \<and> last ident = CHR 0x0A \<and> identifier_constraints (butlast ident))"
  shows "stop_db_instance e self ident snap = (Inl InvalidDBInstanceIdentifier, self) \<and>
         start_db_instance e self ident = (Inl InvalidDBInstanceIdentifier, self) \<and>
         delete_db_instance e self ident snap = (Inl InvalidDBInstanceIdentifier, self) \<and>
         (kw_db_instance_identifier kw = Some ident \<and> \<not> has_key (databases self) ident \<longrightarrow>
            create_db_instance e self kw = (Inl InvalidDBInstanceIdentifier, self))"
proof -
  from validate_db_identifier_accepts [of ident] bad nl validate_db_identifier_cases [of ident]
  have v: "validate_db_identifier ident = Inl InvalidDBInstanceIdentifier" by blast
  show ?thesis
    by (simp add: stop_db_instance_def start_db_instance_def delete_db_instance_def
        create_db_instance_def v)
qed

theorem invalid_identifier_rejected_witness:
  "\<not> identifier_constraints ''db--2'' \<and>
   stop_db_instance example_env backend_renamed ''db--2'' None =
     (Inl InvalidDBInstanceIdentifier, backend_renamed) \<and>
   start_db_instance example_env backend_renamed ''db--2'' =
     (Inl InvalidDBInstanceIdentifier, backend_renamed) \<and>
   delete_db_instance example_env backend_renamed ''db--2'' None =
     (Inl InvalidDBInstanceIdentifier, backend_renamed) \<and>
   create_db_instance example_env backend_c1
       (example_db_kwargs\<lparr>kw_db_instance_identifier := Some ''db--2''\<rparr>) =
     (Inl InvalidDBInstanceIdentifier, backend_c1) \<and>
   \<not> identifier_constraints (''db1'' @ [CHR 0x0A, CHR 0x0A]) \<and>
   start_db_instance example_env backend_c1_db1 (''db1'' @ [CHR 0x0A, CHR 0x0A]) =
     (Inl InvalidDBInstanceIdentifier, backend_c1_db1)"
proof -
  have bad: "\<not> identifier_constraints ''db--2''" by code_simp
  have nl: "\<not> (''db--2'' \<noteq> [] \<and> last ''db--2'' = CHR 0x0A \<and>
                identifier_constraints (butlast ''db--2''))" by code_simp
  have k: "kw_db_instance_identifier
             (example_db_kwargs\<lparr>kw_db_instance_identifier := Some ''db--2''\<rparr>) = Some ''db--2'' \<and>
           \<not> has_key (databases backend_c1) ''db--2''" by code_simp
  have bad2: "\<not> identifier_constraints (''db1'' @ [CHR 0x0A, CHR 0x0A])" by code_simp
  have nl2: "\<not> ((''db1'' @ [CHR 0x0A, CHR 0x0A]) \<noteq> [] \<and>
                 last (''db1'' @ [CHR 0x0A, CHR 0x0A]) = CHR 0x0A \<and>
                 identifier_constraints (butlast (''db1'' @ [CHR 0x0A, CHR 0x0A])))" by code_simp
  from invalid_identifier_rejected [OF bad nl, of example_env backend_renamed None]
    invalid_identifier_rejected [OF bad nl, of example_env backend_c1 None
      "example_db_kwargs\<lparr>kw_db_instance_identifier := Some ''db--2''\<rparr>"]
    invalid_identifier_rejected [OF bad2 nl2, of example_env backend_c1_db1 None] k bad bad2
  show ?thesis by blast
qed

text \<open>
  The claim as stated fails for \<open>create_db_instance\<close>: the check for an existing
  instance comes before the validation, so for the identifier \<open>db--2\<close> of a renamed
  instance the call raises \<open>DBInstanceAlreadyExists\<close>.
\<close>

theorem create_existing_invalid_identifier_counterexample:
  "\<not> identifier_constraints ''db--2'' \<and>
   create_db_instance example_env backend_renamed
       (example_db_kwargs\<lparr>kw_db_instance_identifier := Some ''db--2''\<rparr>) =
     (Inl DBInstanceAlreadyExists, backend_renamed)"
  by code_simp

text \<open>
  The identifier \<open>db1\<close> followed by one newline passes the validation, so the three
  operations go on to look the instance up.
\<close>

lemma validate_db_identifier_trailing_newline:
  "\<not> identifier_constraints (''db1'' @ [CHR 0x0A]) \<and>
   validate_db_identifier (''db1'' @ [CHR 0x0A]) = Inr () \<and>
   stop_db_instance example_env backend_c1_db1 (''db1'' @ [CHR 0x0A]) None =
     (Inl DBInstanceNotFoundError, backend_c1_db1) \<and>
   start_db_instance example_env backend_c1_db1 (''db1'' @ [CHR 0x0A]) =
     (Inl DBInstanceNotFoundError, backend_c1_db1) \<and>
   delete_db_instance example_env backend_c1_db1 (''db1'' @ [CHR 0x0A]) None =
     (Inl DBInstanceNotFoundError, backend_c1_db1)"
  by code_simp

subsection \<open>Tags of a resource named by its ARN\<close>









text \<open>The ARNs of the resources stored after \<open>c1\<close> and \<open>db1\<close> were created.\<close>

lemma stored_arns_example:
  "stored_arns backend_c1_db1 =
     [Inr ''arn:aws:rds:us-east-1:123456789012:cluster:c1'',
      Inr ''arn:aws:rds:us-east-1:123456789012:db:db1'']"
  by code_simp


text \<open>
  For comparison, the tags added to an instance that exists are listed afterwards.
\<close>

lemma tags_of_existing_resource:
  "list_tags_for_resource example_env
     (snd (add_tags_to_resource example_env backend_c1_db1
             ''arn:aws:rds:us-east-1:123456789012:db:db1'' [(''k'', ''v'')]))
     ''arn:aws:rds:us-east-1:123456789012:db:db1'' =
   (Inr [(''k'', ''v'')],
    snd (add_tags_to_resource example_env backend_c1_db1
           ''arn:aws:rds:us-east-1:123456789012:db:db1'' [(''k'', ''v'')]))"
  by code_simp

subsection \<open>Referential integrity of cluster members\<close>

lemma set_update_subset: "set (AList.update k v xs) \<subseteq> insert (k, v) (set xs)"
  by (induction xs) auto

lemma has_key_update: "has_key (AList.update k v xs) k' \<longleftrightarrow> k' = k \<or> has_key xs k'"
  by (auto simp: has_key_def dom_update)

lemma create_db_instance_Inr:
  assumes "create_db_instance e self kw = (Inr d, self')"
  shows "\<exists>ident. kw_db_instance_identifier kw = Some ident \<and> \<not> has_key (databases self) ident \<and>
           databases self' = AList.update ident d (databases self) \<and>
           (case (case db_cluster_identifier d of None \<Rightarrow> None
                  | Some cid \<Rightarrow> map_option (Pair cid) (map_of (clusters self) cid)) of
              None \<Rightarrow> clusters self' = clusters self
            | Some (cid, c) \<Rightarrow>
                clusters self' =
                  AList.update cid (c\<lparr>cluster_members := cluster_members c @ [ident]\<rparr>)
                    (clusters self))"
  using assms unfolding create_db_instance_def
  by (auto split: option.splits sum.splits if_splits)

lemma create_db_instance_error:
  "create_db_instance e self kw = (Inl err, self') \<Longrightarrow> self' = self"
  unfolding create_db_instance_def
  by (auto split: option.splits sum.splits if_splits)

text \<open>
  \<open>create_db_instance\<close> keeps every member of every cluster a key of \<open>databases\<close>:
  it appends the new identifier to the members of its cluster and stores the instance
  under that identifier.
\<close>

lemma create_db_instance_preserves:
  assumes inv: "cluster_members_exist self"
    and c: "create_db_instance e self kw = (r, self')"
  shows "cluster_members_exist self'"
proof (cases r)
  case (Inl err)
  with c inv show ?thesis by (auto dest: create_db_instance_error)
next
  case (Inr d)
  with c have c': "create_db_instance e self kw = (Inr d, self')" by simp
  from create_db_instance_Inr [OF c'] obtain ident where
    k: "databases self' = AList.update ident d (databases self)"
    and cl: "(case (case db_cluster_identifier d of None \<Rightarrow> None
                  | Some cid \<Rightarrow> map_option (Pair cid) (map_of (clusters self) cid)) of
              None \<Rightarrow> clusters self' = clusters self
            | Some (cid, c) \<Rightarrow>
                clusters self' =
                  AList.update cid (c\<lparr>cluster_members := cluster_members c @ [ident]\<rparr>)
                    (clusters self))" by blast
  have old: "\<And>cid c m. (cid, c) \<in> set (clusters self) \<Longrightarrow> m \<in> set (cluster_members c) \<Longrightarrow>
      has_key (databases self') m"
    using inv by (auto simp: cluster_members_exist_def list_all_iff k has_key_update)
  have "\<And>cid c m. (cid, c) \<in> set (clusters self') \<Longrightarrow> m \<in> set (cluster_members c) \<Longrightarrow>
      has_key (databases self') m"
  proof -
    fix cid c m assume a: "(cid, c) \<in> set (clusters self')" "m \<in> set (cluster_members c)"
    show "has_key (databases self') m"
    proof (cases "(case db_cluster_identifier d of None \<Rightarrow> None
                  | Some cid \<Rightarrow> map_option (Pair cid) (map_of (clusters self) cid))")
      case None
      with cl a old show ?thesis by auto
    next
      case (Some p)
      obtain cid0 c0 where p: "p = (cid0, c0)" by (cases p)
      with Some cl have u: "clusters self' =
          AList.update cid0 (c0\<lparr>cluster_members := cluster_members c0 @ [ident]\<rparr>) (clusters self)"
        by simp
      from Some p have "map_of (clusters self) cid0 = Some c0"
        by (auto split: option.splits)
      then have in0: "(cid0, c0) \<in> set (clusters self)" by (rule map_of_SomeD)
      from a(1) u set_update_subset
      have "(cid, c) = (cid0, c0\<lparr>cluster_members := cluster_members c0 @ [ident]\<rparr>)
            \<or> (cid, c) \<in> set (clusters self)" by fastforce
      then show ?thesis
      proof
        assume "(cid, c) = (cid0, c0\<lparr>cluster_members := cluster_members c0 @ [ident]\<rparr>)"
        with a(2) have "m \<in> set (cluster_members c0) \<or> m = ident" by auto
        then show ?thesis using old [OF in0] by (auto simp: k has_key_update)
      next
        assume "(cid, c) \<in> set (clusters self)"
        with a(2) old show ?thesis by blast
      qed
    qed
  qed
  then show ?thesis
    by (auto simp: cluster_members_exist_def list_all_iff)
qed

text \<open>
  C2. \<open>modify_db_instance\<close> does not preserve the invariant: after \<open>db1\<close>, a
  member of the cluster \<open>c1\<close>, is renamed to \<open>db2\<close>, the instance is stored under
  \<open>db2\<close> only, while the members of \<open>c1\<close> still list \<open>db1\<close>; deleting \<open>db2\<close>
  then fails with \<open>ValueError\<close>, because \<open>delete_db_instance\<close> looks for \<open>db2\<close>
  among the members.
\<close>

theorem rename_breaks_cluster_members:
  "cluster_members_exist backend_c1_db1 \<and>
   map_option name_attr (map_of (databases backend_db2) ''db2'') = Some ''db2'' \<and>
   \<not> has_key (databases backend_db2) ''db1'' \<and>
   map_option cluster_members (map_of (clusters backend_db2) ''c1'') = Some [''db1''] \<and>
   \<not> cluster_members_exist backend_db2 \<and>
   fst (delete_db_instance example_env backend_db2 ''db2'' None) = Inl ValueError"
  by code_simp

end
